theory Spec2Isabelle
  imports Main "HOL-Library.Word"
begin

unbundle bit_operations_syntax

section \<open>The DXBC shader debugger: values\<close>

text \<open>
  A shallow embedding of \<^verbatim>\<open>renderdoc/driver/shaders/dxbc/dxbc_debug.cpp\<close>.
  A register holds four 32-bit slots that the code reads through a union as
  \<^verbatim>\<open>uint32_t\<close>, \<^verbatim>\<open>int32_t\<close>, \<^verbatim>\<open>float\<close> or (two slots at a time) \<^verbatim>\<open>double\<close>.
  The model keeps the raw bits: a \<^verbatim>\<open>float\<close> is the \<open>32 word\<close> of its IEEE-754
  binary32 encoding, a \<^verbatim>\<open>double\<close> the \<open>64 word\<close> of its binary64 encoding, and the
  few floating-point operations the modelled code uses (NaN test, finiteness, ordered
  comparison, sign flip) are written on the encoding, where they are exact.
\<close>

type_synonym u8 = "8 word"
type_synonym u16 = "16 word"
type_synonym u32 = "32 word"
type_synonym u64 = "64 word"

subsection \<open>IEEE-754 predicates on the encoding\<close>

definition isnan32 :: "u32 \<Rightarrow> bool" where
  \<comment> \<open>\<^verbatim>\<open>_isnan\<close>: exponent all ones, mantissa not zero\<close>
  "isnan32 x = (0x7F800000 < (x AND 0x7FFFFFFF))"

definition finite32 :: "u32 \<Rightarrow> bool" where
  \<comment> \<open>\<^verbatim>\<open>_finite\<close>: exponent not all ones\<close>
  "finite32 x = ((x AND 0x7F800000) \<noteq> 0x7F800000)"

definition fkey32 :: "u32 \<Rightarrow> int" where
  \<comment> \<open>sign-magnitude reading: the order of the non-NaN floats, with \<open>-0 = +0\<close>\<close>
  "fkey32 x = (if bit x 31 then - uint (x AND 0x7FFFFFFF) else uint (x AND 0x7FFFFFFF))"

definition flt32 :: "u32 \<Rightarrow> u32 \<Rightarrow> bool" where
  \<comment> \<open>\<^verbatim>\<open>a < b\<close> on floats: false when either side is NaN\<close>
  "flt32 a b = (if isnan32 a then False else if isnan32 b then False else fkey32 a < fkey32 b)"

definition fge32 :: "u32 \<Rightarrow> u32 \<Rightarrow> bool" where
  \<comment> \<open>\<^verbatim>\<open>a >= b\<close> on floats: false when either side is NaN\<close>
  "fge32 a b = (if isnan32 a then False else if isnan32 b then False else fkey32 b \<le> fkey32 a)"

definition fneg32 :: "u32 \<Rightarrow> u32" where
  \<comment> \<open>unary minus on a float flips the sign bit\<close>
  "fneg32 x = x XOR 0x80000000"

definition isnan64 :: "u64 \<Rightarrow> bool" where
  "isnan64 x = (0x7FF0000000000000 < (x AND 0x7FFFFFFFFFFFFFFF))"

definition finite64 :: "u64 \<Rightarrow> bool" where
  "finite64 x = ((x AND 0x7FF0000000000000) \<noteq> 0x7FF0000000000000)"

definition fkey64 :: "u64 \<Rightarrow> int" where
  "fkey64 x = (if bit x 63 then - uint (x AND 0x7FFFFFFFFFFFFFFF)
               else uint (x AND 0x7FFFFFFFFFFFFFFF))"

definition flt64 :: "u64 \<Rightarrow> u64 \<Rightarrow> bool" where
  "flt64 a b = (if isnan64 a then False else if isnan64 b then False else fkey64 a < fkey64 b)"

definition fge64 :: "u64 \<Rightarrow> u64 \<Rightarrow> bool" where
  "fge64 a b = (if isnan64 a then False else if isnan64 b then False else fkey64 b \<le> fkey64 a)"

definition fneg64 :: "u64 \<Rightarrow> u64" where
  "fneg64 x = x XOR 0x8000000000000000"

definition f32_zero :: u32 where "f32_zero = 0"
definition f32_one :: u32 where "f32_one = 0x3F800000"
definition f64_zero :: u64 where "f64_zero = 0"
definition f64_one :: u64 where "f64_one = 0x3FF0000000000000"

subsection \<open>\<^verbatim>\<open>flush_denorm\<close>, \<^verbatim>\<open>dxbc_min\<close>, \<^verbatim>\<open>dxbc_max\<close>\<close>

definition flush_denorm :: "u32 \<Rightarrow> u32" where
  "flush_denorm x = (if (x AND 0x7F800000) \<noteq> 0 then x else x AND 0x80000000)"

text \<open>The two C++ overloads of each helper get the suffixes \<open>_float\<close> and \<open>_double\<close>.\<close>

definition dxbc_min_float :: "u32 \<Rightarrow> u32 \<Rightarrow> u32" where
  "dxbc_min_float a b =
     (if isnan32 a then b else if isnan32 b then a else if flt32 a b then a else b)"

definition dxbc_min_double :: "u64 \<Rightarrow> u64 \<Rightarrow> u64" where
  "dxbc_min_double a b =
     (if isnan64 a then b else if isnan64 b then a else if flt64 a b then a else b)"

definition dxbc_max_float :: "u32 \<Rightarrow> u32 \<Rightarrow> u32" where
  "dxbc_max_float a b =
     (if isnan32 a then b else if isnan32 b then a else if fge32 a b then a else b)"

definition dxbc_max_double :: "u64 \<Rightarrow> u64 \<Rightarrow> u64" where
  "dxbc_max_double a b =
     (if isnan64 a then b else if isnan64 b then a else if fge64 a b then a else b)"

subsection \<open>\<^verbatim>\<open>ShaderVariable\<close>\<close>

text \<open>
  \<^verbatim>\<open>ShaderVariable\<close>, \<^verbatim>\<open>ShaderValue\<close> and \<^verbatim>\<open>VarType\<close> are declared in a header that
  is not among the sources; the fields below are the ones this file reads and writes.
  \<open>ShaderValue\<close> holds the four slots \<^verbatim>\<open>uv[0..3]\<close> (\<^verbatim>\<open>u.x\<close> to \<^verbatim>\<open>u.w\<close>); the
  views \<^verbatim>\<open>iv\<close> and \<^verbatim>\<open>fv\<close> are the same bits, and the doubles \<^verbatim>\<open>d.x\<close>, \<^verbatim>\<open>d.y\<close>
  overlay the slot pairs (0,1) and (2,3), low word first. The union is larger than four
  slots: \<open>dv2\<close> and \<open>dv3\<close> are \<^verbatim>\<open>value.dv[2]\<close> and \<^verbatim>\<open>value.dv[3]\<close>, the two
  doubles above the four slots, which \<^verbatim>\<open>AssignValue\<close> reads and nothing in the modelled
  code writes. \<open>Unknown\<close> stands for any tag other than the four the helpers handle
  (their \<^verbatim>\<open>default:\<close> branch).
\<close>

datatype VarType = Float | SInt | UInt | Double | Unknown

datatype ShaderValue = ShaderValue (ux: u32) (uy: u32) (uz: u32) (uw: u32)

record ShaderVariable =
  name :: string
  rows :: nat
  columns :: nat
  vtype :: VarType
  val :: ShaderValue
  dv2 :: u64
  dv3 :: u64

datatype error =
    Fatal                 \<comment> \<open>\<^verbatim>\<open>RDCFATAL\<close>: the process stops\<close>
  | UndefinedBehaviour    \<comment> \<open>an unchecked array access outside its bounds\<close>
  | Unmodelled            \<comment> \<open>a path of the source that this embedding does not cover\<close>

definition uv_get :: "ShaderValue \<Rightarrow> nat \<Rightarrow> u32" where
  \<comment> \<open>\<^verbatim>\<open>value.uv[i]\<close> for \<open>i < 4\<close>; callers check the bound\<close>
  "uv_get v i = (if i = 0 then ux v else if i = 1 then uy v else if i = 2 then uz v else uw v)"

definition uv_set :: "ShaderValue \<Rightarrow> nat \<Rightarrow> u32 \<Rightarrow> ShaderValue" where
  \<comment> \<open>\<^verbatim>\<open>value.uv[i] = x\<close> for \<open>i < 4\<close>\<close>
  "uv_set v i x =
     (if i = 0 then ShaderValue x (uy v) (uz v) (uw v)
      else if i = 1 then ShaderValue (ux v) x (uz v) (uw v)
      else if i = 2 then ShaderValue (ux v) (uy v) x (uw v)
      else ShaderValue (ux v) (uy v) (uz v) x)"

definition dx :: "ShaderValue \<Rightarrow> u64" where
  \<comment> \<open>\<^verbatim>\<open>value.d.x\<close>\<close>
  "dx v = word_cat (uy v) (ux v)"

definition dy :: "ShaderValue \<Rightarrow> u64" where
  \<comment> \<open>\<^verbatim>\<open>value.d.y\<close>\<close>
  "dy v = word_cat (uw v) (uz v)"

definition dv_get :: "ShaderVariable \<Rightarrow> nat \<Rightarrow> u64" where
  \<comment> \<open>\<^verbatim>\<open>value.dv[i]\<close> for \<open>i < 4\<close>\<close>
  "dv_get v i =
     (if i = 0 then dx (val v) else if i = 1 then dy (val v) else if i = 2 then dv2 v else dv3 v)"

definition DoubleGet :: "ShaderVariable \<Rightarrow> u64 \<times> u64" where
  "DoubleGet var = (dx (val var), dy (val var))"

definition DoubleSet :: "ShaderVariable \<Rightarrow> u64 \<times> u64 \<Rightarrow> ShaderVariable" where
  "DoubleSet var d =
     var\<lparr>val := ShaderValue (ucast (fst d)) (ucast (drop_bit 32 (fst d)))
                            (ucast (snd d)) (ucast (drop_bit 32 (snd d))),
         vtype := Double\<rparr>"

definition map_cols :: "nat \<Rightarrow> (u32 \<Rightarrow> u32) \<Rightarrow> ShaderValue \<Rightarrow> ShaderValue" where
  \<comment> \<open>\<^verbatim>\<open>for(i = 0; i < columns; i++) r.value.uv[i] = f(v.value.uv[i])\<close> on the four slots\<close>
  "map_cols n f v =
     ShaderValue (if 0 < n then f (ux v) else ux v) (if 1 < n then f (uy v) else uy v)
                 (if 2 < n then f (uz v) else uz v) (if 3 < n then f (uw v) else uw v)"

definition map2_cols ::
  "nat \<Rightarrow> (u32 \<Rightarrow> u32 \<Rightarrow> u32) \<Rightarrow> ShaderValue \<Rightarrow> ShaderValue \<Rightarrow> ShaderValue" where
  \<comment> \<open>\<^verbatim>\<open>for(i = 0; i < a.columns; i++) r.value.uv[i] = f(a.value.uv[i], b.value.uv[i])\<close>\<close>
  "map2_cols n f a b =
     ShaderValue (if 0 < n then f (ux a) (ux b) else ux a) (if 1 < n then f (uy a) (uy b) else uy a)
                 (if 2 < n then f (uz a) (uz b) else uz a) (if 3 < n then f (uw a) (uw b) else uw a)"

subsection \<open>The arithmetic helpers \<^verbatim>\<open>sat\<close>, \<^verbatim>\<open>abs\<close>, \<^verbatim>\<open>neg\<close>, \<^verbatim>\<open>add\<close>, \<^verbatim>\<open>sub\<close>\<close>

definition sat_sint :: "u32 \<Rightarrow> u32" where
  \<comment> \<open>\<^verbatim>\<open>iv < 0 ? 0 : (iv > 1 ? 1 : iv)\<close>\<close>
  "sat_sint x = (if sint x < 0 then 0 else if 1 < sint x then 1 else x)"

definition sat_uint :: "u32 \<Rightarrow> u32" where
  \<comment> \<open>\<^verbatim>\<open>uv ? 1 : 0\<close>\<close>
  "sat_uint x = (if x = 0 then 0 else 1)"

definition sat_float :: "u32 \<Rightarrow> u32" where
  "sat_float x = dxbc_min_float f32_one (dxbc_max_float f32_zero x)"

definition sat_double :: "u64 \<Rightarrow> u64" where
  "sat_double x = dxbc_min_double f64_one (dxbc_max_double f64_zero x)"

definition sat :: "ShaderVariable \<Rightarrow> VarType \<Rightarrow> error + ShaderVariable" where
  "sat v ty =
     (case ty of
        SInt \<Rightarrow> Inr (v\<lparr>val := map_cols (columns v) sat_sint (val v), vtype := SInt\<rparr>)
      | UInt \<Rightarrow> Inr (v\<lparr>val := map_cols (columns v) sat_uint (val v), vtype := UInt\<rparr>)
      | Float \<Rightarrow> Inr (v\<lparr>val := map_cols (columns v) sat_float (val v), vtype := Float\<rparr>)
      | Double \<Rightarrow>
          (let src = DoubleGet v
           in Inr ((DoubleSet v (sat_double (fst src), sat_double (snd src)))\<lparr>vtype := Double\<rparr>))
      | Unknown \<Rightarrow> Inl Fatal)"

definition abs_sint :: "u32 \<Rightarrow> u32" where
  \<comment> \<open>\<^verbatim>\<open>iv > 0 ? iv : -iv\<close>, the negation wrapping at \<^verbatim>\<open>INT_MIN\<close>\<close>
  "abs_sint x = (if 0 < sint x then x else - x)"

definition abs_float :: "u32 \<Rightarrow> u32" where
  \<comment> \<open>\<^verbatim>\<open>fv > 0 ? fv : -fv\<close>\<close>
  "abs_float x = (if flt32 f32_zero x then x else fneg32 x)"

definition abs_double :: "u64 \<Rightarrow> u64" where
  "abs_double x = (if flt64 f64_zero x then x else fneg64 x)"

definition abs_var :: "ShaderVariable \<Rightarrow> VarType \<Rightarrow> error + ShaderVariable" where
  \<comment> \<open>the helper \<^verbatim>\<open>abs\<close> (the name is taken in HOL)\<close>
  "abs_var v ty =
     (case ty of
        SInt \<Rightarrow> Inr (v\<lparr>val := map_cols (columns v) abs_sint (val v), vtype := SInt\<rparr>)
      | UInt \<Rightarrow> Inr (v\<lparr>vtype := UInt\<rparr>)
      | Float \<Rightarrow> Inr (v\<lparr>val := map_cols (columns v) abs_float (val v), vtype := Float\<rparr>)
      | Double \<Rightarrow>
          (let src = DoubleGet v
           in Inr ((DoubleSet v (abs_double (fst src), abs_double (snd src)))\<lparr>vtype := Double\<rparr>))
      | Unknown \<Rightarrow> Inl Fatal)"

definition neg :: "ShaderVariable \<Rightarrow> VarType \<Rightarrow> error + ShaderVariable" where
  "neg v ty =
     (case ty of
        SInt \<Rightarrow> Inr (v\<lparr>val := map_cols (columns v) (\<lambda>x. - x) (val v), vtype := SInt\<rparr>)
      | UInt \<Rightarrow> Inr (v\<lparr>vtype := UInt\<rparr>)
      | Float \<Rightarrow> Inr (v\<lparr>val := map_cols (columns v) fneg32 (val v), vtype := Float\<rparr>)
      | Double \<Rightarrow>
          (let src = DoubleGet v
           in Inr ((DoubleSet v (fneg64 (fst src), fneg64 (snd src)))\<lparr>vtype := Double\<rparr>))
      | Unknown \<Rightarrow> Inl Fatal)"

text \<open>
  \<^verbatim>\<open>add\<close> on \<^verbatim>\<open>Float\<close> and \<^verbatim>\<open>Double\<close> rounds, which the bit-level model does not
  define: those two branches are marked \<open>Unmodelled\<close>. The integer branches wrap.
\<close>

definition add :: "ShaderVariable \<Rightarrow> ShaderVariable \<Rightarrow> VarType \<Rightarrow> error + ShaderVariable" where
  "add a b ty =
     (case ty of
        SInt \<Rightarrow> Inr (a\<lparr>val := map2_cols (columns a) (\<lambda>p q. p + q) (val a) (val b), vtype := SInt\<rparr>)
      | UInt \<Rightarrow> Inr (a\<lparr>val := map2_cols (columns a) (\<lambda>p q. p + q) (val a) (val b), vtype := UInt\<rparr>)
      | Float \<Rightarrow> Inl Unmodelled
      | Double \<Rightarrow> Inl Unmodelled
      | Unknown \<Rightarrow> Inl Fatal)"

definition sub :: "ShaderVariable \<Rightarrow> ShaderVariable \<Rightarrow> VarType \<Rightarrow> error + ShaderVariable" where
  \<comment> \<open>\<^verbatim>\<open>return add(a, neg(b, type), type)\<close>\<close>
  "sub a b ty = (case neg b ty of Inl e \<Rightarrow> Inl e | Inr nb \<Rightarrow> add a nb ty)"

text \<open>
  The constructors of \<^verbatim>\<open>ShaderVariable\<close> live in the same missing header. The one
  taking four \<^verbatim>\<open>uint32_t\<close> makes a one-row, four-column value tagged \<open>UInt\<close>, zero
  above the four slots. The default constructor makes an empty, zero-filled value; which
  tag it gives is not visible from the sources, so the tag is the parameter \<open>dt\<close> of
  everything below.
\<close>

definition ShaderVariable_uint :: "string \<Rightarrow> u32 \<Rightarrow> u32 \<Rightarrow> u32 \<Rightarrow> u32 \<Rightarrow> ShaderVariable" where
  "ShaderVariable_uint n a b c d =
     \<lparr>name = n, rows = 1, columns = 4, vtype = UInt, val = ShaderValue a b c d,
      dv2 = 0, dv3 = 0\<rparr>"

definition ShaderVariable_default :: "VarType \<Rightarrow> ShaderVariable" where
  "ShaderVariable_default dt =
     \<lparr>name = [], rows = 0, columns = 0, vtype = dt, val = ShaderValue 0 0 0 0,
      dv2 = 0, dv3 = 0\<rparr>"

section \<open>Instructions and operands\<close>

text \<open>
  The opcodes are the part of \<^verbatim>\<open>OpcodeType\<close> that the properties below talk about:
  one float instruction that flushes denormals (\<^verbatim>\<open>add\<close>), the moves, one signed
  instruction, the unsigned instructions of the claims, and all of flow control (whose
  opcodes the \<^verbatim>\<open>switch\<close> scan inspects).
\<close>

datatype OpcodeType =
    OPCODE_ADD | OPCODE_MOV | OPCODE_DMOV | OPCODE_IADD
  | OPCODE_UDIV | OPCODE_BFREV | OPCODE_UADDC | OPCODE_USUBB
  | OPCODE_IMM_ATOMIC_ALLOC | OPCODE_IMM_ATOMIC_CONSUME
  | OPCODE_LOOP | OPCODE_CONTINUE | OPCODE_CONTINUEC | OPCODE_ENDLOOP
  | OPCODE_SWITCH | OPCODE_CASE | OPCODE_DEFAULT | OPCODE_ENDSWITCH
  | OPCODE_BREAK | OPCODE_BREAKC | OPCODE_IF | OPCODE_ELSE | OPCODE_ENDIF
  | OPCODE_RET | OPCODE_RETC | OPCODE_DISCARD | OPCODE_NOP

fun OperationType :: "OpcodeType \<Rightarrow> VarType" where
  "OperationType OPCODE_IADD = SInt"
| "OperationType OPCODE_BREAK = SInt"
| "OperationType OPCODE_BREAKC = SInt"
| "OperationType OPCODE_IF = SInt"
| "OperationType OPCODE_BFREV = UInt"
| "OperationType OPCODE_UADDC = UInt"
| "OperationType OPCODE_USUBB = UInt"
| "OperationType OPCODE_IMM_ATOMIC_ALLOC = UInt"
| "OperationType OPCODE_IMM_ATOMIC_CONSUME = UInt"
| "OperationType OPCODE_UDIV = UInt"
| "OperationType OPCODE_DMOV = Double"
| "OperationType _ = Float"

fun OperationFlushing :: "OpcodeType \<Rightarrow> bool" where
  "OperationFlushing OPCODE_ADD = True"
| "OperationFlushing _ = False"

datatype OperandType =
    TYPE_TEMP | TYPE_INPUT | TYPE_OUTPUT | TYPE_INDEXABLE_TEMP
  | TYPE_IMMEDIATE32 | TYPE_IMMEDIATE64 | TYPE_SAMPLER | TYPE_RESOURCE
  | TYPE_CONSTANT_BUFFER | TYPE_IMMEDIATE_CONSTANT_BUFFER | TYPE_NULL | TYPE_RASTERIZER
  | TYPE_OUTPUT_DEPTH | TYPE_OUTPUT_DEPTH_LESS_EQUAL | TYPE_OUTPUT_DEPTH_GREATER_EQUAL
  | TYPE_OUTPUT_STENCIL_REF | TYPE_OUTPUT_COVERAGE_MASK
  | TYPE_UNORDERED_ACCESS_VIEW | TYPE_THREAD_GROUP_SHARED_MEMORY
  | TYPE_INPUT_THREAD_GROUP_ID | TYPE_INPUT_THREAD_ID | TYPE_INPUT_THREAD_ID_IN_GROUP
  | TYPE_INPUT_THREAD_ID_IN_GROUP_FLATTENED | TYPE_INPUT_COVERAGE_MASK | TYPE_INPUT_PRIMITIVEID
  | TYPE_OTHER  \<comment> \<open>any operand type the two \<^verbatim>\<open>switch\<close>es send to \<^verbatim>\<open>default:\<close>\<close>

datatype OperandModifier =
  OPERAND_MODIFIER_NONE | OPERAND_MODIFIER_NEG | OPERAND_MODIFIER_ABS | OPERAND_MODIFIER_ABSNEG

datatype NumOperandComponents = NUMCOMPS_0 | NUMCOMPS_1 | NUMCOMPS_4 | NUMCOMPS_N

text \<open>\<open>Comps\<close> is \<^verbatim>\<open>uint8_t comps[4]\<close>; \<^verbatim>\<open>0xff\<close> marks an unused slot.\<close>

datatype Comps = Comps (c0: u8) (c1: u8) (c2: u8) (c3: u8)

datatype ASMOperand =
  ASMOperand (optype: OperandType) (indices: "ASMIndex list") (comps: Comps)
             (modifier: OperandModifier) (numComponents: NumOperandComponents)
             (imm_values: ShaderValue)
and ASMIndex =
  ASMIndex (absolute: bool) (relative: bool) (index: u64) (operand: ASMOperand)

record ASMOperation =
  operation :: OpcodeType
  operands :: "ASMOperand list"
  saturate :: bool
  nonzero :: bool

section \<open>The execution state\<close>

datatype RegisterType = Undefined | Temporary | IndexedTemporary | Output

record RegisterRange =
  rtype :: RegisterType
  rindex :: u16
  component :: u8

datatype ShaderEvents = SampleLoadGather | GeneratedNanOrInf

datatype ShaderBuiltin =
    DepthOutput | DepthOutputLessEqual | DepthOutputGreaterEqual
  | StencilReference | MSAACoverage | Count | OtherBuiltin

record DXBCFile =
  instructions :: "ASMOperation list"      \<comment> \<open>\<^verbatim>\<open>GetInstruction\<close>, \<^verbatim>\<open>GetNumInstructions\<close>\<close>
  m_OutputSig :: "ShaderBuiltin list"      \<comment> \<open>the \<^verbatim>\<open>systemValue\<close> of each output\<close>

text \<open>
  The state of one lane. \<open>flags\<close> is the set of events whose bit is set
  (\<^verbatim>\<open>ShaderEvents::NoEvent\<close> is the empty set); \<open>inputs\<close> is \<^verbatim>\<open>trace->inputs\<close>;
  \<open>dxbc\<close> is the program the state points to (the model has no null pointer).
\<close>

record State =
  registers :: "ShaderVariable list"
  indexableTemps :: "ShaderVariable list list"
  outputs :: "ShaderVariable list"
  inputs :: "ShaderVariable list"
  nextInstruction :: int
  "done" :: bool
  flags :: "ShaderEvents set"
  modified :: "RegisterRange list"
  dxbc :: DXBCFile

record UAVData =
  hiddenCounter :: u32

record GlobalState =
  uavs :: "UAVData list"


section \<open>Reading a source operand: \<^verbatim>\<open>State::GetSrc\<close>\<close>

definition index_at :: "u32 list \<Rightarrow> nat \<Rightarrow> u32" where
  \<comment> \<open>\<^verbatim>\<open>indices[k]\<close> of the local array \<^verbatim>\<open>uint32_t indices[4] = {0}\<close>\<close>
  "index_at ix k = (if k < length ix then ix ! k else 0)"

definition comp_ok :: "u8 \<Rightarrow> bool" where
  \<comment> \<open>a component that is unused or names one of the four modelled slots\<close>
  "comp_ok c = (if c = 0xff then True else c < 4)"

definition comps_ok :: "Comps \<Rightarrow> bool" where
  "comps_ok cs = (comp_ok (c0 cs) \<and> comp_ok (c1 cs) \<and> comp_ok (c2 cs) \<and> comp_ok (c3 cs))"

definition is_scalar :: "Comps \<Rightarrow> bool" where
  \<comment> \<open>\<^verbatim>\<open>comps[0] != 0xff && comps[1] == 0xff && comps[2] == 0xff && comps[3] == 0xff\<close>\<close>
  "is_scalar cs = (c0 cs \<noteq> 0xff \<and> c1 cs = 0xff \<and> c2 cs = 0xff \<and> c3 cs = 0xff)"

definition swz :: "ShaderValue \<Rightarrow> u8 \<Rightarrow> nat \<Rightarrow> u32" where
  \<comment> \<open>\<^verbatim>\<open>s.value.uv[comps[k] == 0xff ? k : comps[k]]\<close>\<close>
  "swz sv c k = uv_get sv (if c = 0xff then k else unat c)"

definition reg_or_index :: "ShaderVariable list \<Rightarrow> u32 \<Rightarrow> ShaderVariable" where
  \<comment> \<open>\<^verbatim>\<open>indices[0] < size ? regs[indices[0]] : ShaderVariable("", indices[0], ...)\<close>\<close>
  "reg_or_index regs i =
     (if unat i < length regs then regs ! unat i else ShaderVariable_uint [] i i i i)"

text \<open>
  The first half of \<^verbatim>\<open>GetSrc\<close>, the \<^verbatim>\<open>switch(oper.type)\<close>: the fetched variable
  \<^verbatim>\<open>s\<close> and whether the operand is flushable. \<open>n\<close> is \<^verbatim>\<open>oper.indices.size()\<close> and
  \<open>ix\<close> the resolved indices. Constant buffers, the immediate constant buffer and the
  compute and pixel system values read data (\<^verbatim>\<open>trace->constantBlocks\<close>,
  \<^verbatim>\<open>m_Immediate\<close>, \<^verbatim>\<open>semantics\<close>, declarations) that the state record does not carry.
\<close>

definition GetSrc_fetch ::
  "VarType \<Rightarrow> State \<Rightarrow> OperandType \<Rightarrow> nat \<Rightarrow> u32 list \<Rightarrow> NumOperandComponents \<Rightarrow> ShaderValue
     \<Rightarrow> error + (ShaderVariable \<times> bool)" where
  "GetSrc_fetch dt s ty n ix nc vals =
     (let i0 = index_at ix 0; i1 = index_at ix 1;
          placeholder = Inr (ShaderVariable_uint [] i0 i0 i0 i0, False);
          imm = (\<lambda>k. (ShaderVariable_default dt)
                   \<lparr>name := ''Immediate'', rows := 1, columns := k,
                    val := map2_cols k (\<lambda>p q. q) (ShaderValue 0 0 0 0) vals\<rparr>)
      in case ty of
           TYPE_TEMP \<Rightarrow> Inr (reg_or_index (registers s) i0, True)
         | TYPE_INDEXABLE_TEMP \<Rightarrow>
             Inr (if n = 2 then
                    if unat i0 < length (indexableTemps s) then
                      if unat i1 < length (indexableTemps s ! unat i0)
                      then indexableTemps s ! unat i0 ! unat i1
                      else ShaderVariable_default dt
                    else ShaderVariable_default dt
                  else ShaderVariable_default dt, True)
         | TYPE_INPUT \<Rightarrow> Inr (reg_or_index (inputs s) i0, True)
         | TYPE_OUTPUT \<Rightarrow> Inr (reg_or_index (outputs s) i0, True)
         | TYPE_THREAD_GROUP_SHARED_MEMORY \<Rightarrow> placeholder
         | TYPE_RESOURCE \<Rightarrow> placeholder
         | TYPE_SAMPLER \<Rightarrow> placeholder
         | TYPE_UNORDERED_ACCESS_VIEW \<Rightarrow> placeholder
         | TYPE_NULL \<Rightarrow> placeholder
         | TYPE_RASTERIZER \<Rightarrow> placeholder
         | TYPE_IMMEDIATE32 \<Rightarrow>
             (if nc = NUMCOMPS_1 then Inr (imm 1, True)
              else if nc = NUMCOMPS_4 then Inr (imm 4, True)
              else Inl Fatal)
         | TYPE_IMMEDIATE64 \<Rightarrow>
             (if nc = NUMCOMPS_1 then Inl Unmodelled
              else if nc = NUMCOMPS_4 then Inl Unmodelled
              else Inl Fatal)
         | TYPE_OTHER \<Rightarrow> Inr (ShaderVariable_uint ''vUnsupported'' 0 0 0 0, True)
         | _ \<Rightarrow> Inl Unmodelled)"

text \<open>
  The second half: swizzle, column count, the \<^verbatim>\<open>abs\<close> and \<^verbatim>\<open>neg\<close> modifiers, and
  the denormal flush of all four slots. A component number other than 0..3 or
  \<^verbatim>\<open>0xff\<close> would read the union past the four modelled slots.
\<close>

definition GetSrc_finish ::
  "ShaderVariable \<times> bool \<Rightarrow> Comps \<Rightarrow> OperandModifier \<Rightarrow> OpcodeType \<Rightarrow> error + ShaderVariable" where
  "GetSrc_finish sf cs md opc =
     (if comps_ok cs then
        (let sv = val (fst sf);
             v1 = (fst sf)\<lparr>val := ShaderValue (swz sv (c0 cs) 0) (swz sv (c1 cs) 1)
                                              (swz sv (c2 cs) 2) (swz sv (c3 cs) 3),
                           columns := (if is_scalar cs then 1 else 4)\<rparr>;
             r2 = (if md = OPERAND_MODIFIER_ABS then abs_var v1 (OperationType opc)
                   else if md = OPERAND_MODIFIER_ABSNEG then abs_var v1 (OperationType opc)
                   else Inr v1)
         in case r2 of
              Inl e \<Rightarrow> Inl e
            | Inr v2 \<Rightarrow>
                (case (if md = OPERAND_MODIFIER_NEG then neg v2 (OperationType opc)
                       else if md = OPERAND_MODIFIER_ABSNEG then neg v2 (OperationType opc)
                       else Inr v2) of
                   Inl e \<Rightarrow> Inl e
                 | Inr v3 \<Rightarrow>
                     Inr (if OperationFlushing opc \<and> snd sf
                          then v3\<lparr>val := map_cols 4 flush_denorm (val v3)\<rparr> else v3)))
      else Inl Unmodelled)"

text \<open>
  \<^verbatim>\<open>GetSrc\<close> itself, with the loop that resolves the operand's indices
  (\<open>GetIndices\<close>): an index is its absolute part, truncated to 32 bits, plus the
  \<^verbatim>\<open>x\<close> component of its relative operand. More than four indices would overrun the
  local array.
\<close>

fun GetSrc :: "VarType \<Rightarrow> State \<Rightarrow> ASMOperand \<Rightarrow> ASMOperation \<Rightarrow> error + ShaderVariable"
and GetIndices :: "VarType \<Rightarrow> State \<Rightarrow> ASMIndex list \<Rightarrow> ASMOperation \<Rightarrow> error + u32 list"
where
  "GetSrc dt s (ASMOperand ty idxs cs md nc vals) op =
     (if 4 < length idxs then Inl UndefinedBehaviour
      else case GetIndices dt s idxs op of
             Inl e \<Rightarrow> Inl e
           | Inr ix \<Rightarrow>
               (case GetSrc_fetch dt s ty (length idxs) ix nc vals of
                  Inl e \<Rightarrow> Inl e
                | Inr sf \<Rightarrow> GetSrc_finish sf cs md (operation op)))"
| "GetIndices dt s [] op = Inr []"
| "GetIndices dt s (ASMIndex ab rel i opnd # rest) op =
     (case (if rel then
              (case GetSrc dt s opnd op of
                 Inl e \<Rightarrow> Inl e
               | Inr idx \<Rightarrow> Inr ((if ab then ucast i else 0) + ux (val idx)))
            else Inr (if ab then ucast i else 0)) of
        Inl e \<Rightarrow> Inl e
      | Inr v \<Rightarrow>
          (case GetIndices dt s rest op of
             Inl e \<Rightarrow> Inl e
           | Inr vs \<Rightarrow> Inr (v # vs)))"

section \<open>Writing a destination: \<^verbatim>\<open>State::AssignValue\<close> and \<^verbatim>\<open>State::SetDst\<close>\<close>

definition nan_or_inf32 :: "u32 \<Rightarrow> bool" where
  \<comment> \<open>\<^verbatim>\<open>!_finite(ft) || _isnan(ft)\<close>\<close>
  "nan_or_inf32 x = (if finite32 x then isnan32 x else True)"

definition nan_or_inf64 :: "u64 \<Rightarrow> bool" where
  "nan_or_inf64 x = (if finite64 x then isnan64 x else True)"

text \<open>
  \<^verbatim>\<open>AssignValue\<close> returns the \<^verbatim>\<open>changed\<close> flag, the updated destination and the
  updated \<^verbatim>\<open>flags\<close> member. The test for the flag reads \<^verbatim>\<open>fv[srcIndex]\<close> of a
  \<open>Float\<close> source and \<^verbatim>\<open>dv[srcIndex]\<close> of a \<open>Double\<close> source; the comparison and
  the assignment are on \<^verbatim>\<open>uv\<close> whatever the tag. Components past the fourth lie
  outside the modelled slots.
\<close>

definition AssignValue ::
  "ShaderEvents set \<Rightarrow> ShaderVariable \<Rightarrow> nat \<Rightarrow> ShaderVariable \<Rightarrow> nat \<Rightarrow> bool
     \<Rightarrow> error + (bool \<times> ShaderVariable \<times> ShaderEvents set)" where
  "AssignValue fl dst dstIndex src srcIndex flushDenorm =
     (if 4 \<le> dstIndex then Inl Unmodelled
      else if 4 \<le> srcIndex then Inl Unmodelled
      else
        (let fl1 = (if vtype src = Float then
                      (if nan_or_inf32 (uv_get (val src) srcIndex)
                       then insert GeneratedNanOrInf fl else fl)
                    else if vtype src = Double then
                      (if nan_or_inf64 (dv_get src srcIndex)
                       then insert GeneratedNanOrInf fl else fl)
                    else fl);
             ret = (uv_get (val dst) dstIndex \<noteq> uv_get (val src) srcIndex);
             d1 = uv_set (val dst) dstIndex (uv_get (val src) srcIndex);
             d2 = (if flushDenorm \<and> vtype src = Float
                   then uv_set d1 dstIndex (flush_denorm (uv_get d1 dstIndex)) else d1)
         in Inr (ret, dst\<lparr>val := d2\<rparr>, fl1)))"

text \<open>The pointer \<^verbatim>\<open>ShaderVariable *v\<close> of \<^verbatim>\<open>SetDst\<close> is a register location.\<close>

datatype RegLoc = LocTemp nat | LocIndexable nat nat | LocOutput nat

fun read_loc :: "State \<Rightarrow> RegLoc \<Rightarrow> ShaderVariable" where
  "read_loc s (LocTemp i) = registers s ! i"
| "read_loc s (LocIndexable i j) = indexableTemps s ! i ! j"
| "read_loc s (LocOutput i) = outputs s ! i"

fun write_loc :: "State \<Rightarrow> RegLoc \<Rightarrow> ShaderVariable \<Rightarrow> State" where
  "write_loc s (LocTemp i) v = s\<lparr>registers := (registers s)[i := v]\<rparr>"
| "write_loc s (LocIndexable i j) v =
     s\<lparr>indexableTemps := (indexableTemps s)[i := (indexableTemps s ! i)[j := v]]\<rparr>"
| "write_loc s (LocOutput i) v = s\<lparr>outputs := (outputs s)[i := v]\<rparr>"

fun find_builtin :: "ShaderBuiltin list \<Rightarrow> ShaderBuiltin \<Rightarrow> nat \<Rightarrow> nat option" where
  \<comment> \<open>the first \<open>i\<close> with \<^verbatim>\<open>m_OutputSig[i].systemValue == builtin\<close>, counting from \<open>k\<close>\<close>
  "find_builtin [] b k = None"
| "find_builtin (x # xs) b k = (if x = b then Some k else find_builtin xs b (Suc k))"

definition semantic_output :: "State \<Rightarrow> ShaderBuiltin \<Rightarrow> error + (RegLoc option \<times> RegisterType)" where
  \<comment> \<open>the semantic outputs; the fallback that matches output names against the operand's
      disassembly (\<^verbatim>\<open>toString\<close>, not in the sources) is not modelled\<close>
  "semantic_output s b =
     (case find_builtin (m_OutputSig (dxbc s)) b 0 of
        Some i \<Rightarrow> (if i < length (outputs s) then Inr (Some (LocOutput i), Undefined)
                   else Inl UndefinedBehaviour)
      | None \<Rightarrow> Inl Unmodelled)"

text \<open>
  The \<^verbatim>\<open>switch(dstoper.type)\<close> of \<^verbatim>\<open>SetDst\<close>: the location written (none when the
  index is out of range or the operand is read-only) and \<^verbatim>\<open>range.type\<close>, which a
  default-constructed \<^verbatim>\<open>RegisterRange\<close> has as \<open>Undefined\<close>.
\<close>

definition SetDst_target ::
  "State \<Rightarrow> OperandType \<Rightarrow> nat \<Rightarrow> u32 list \<Rightarrow> error + (RegLoc option \<times> RegisterType)" where
  "SetDst_target s ty n ix =
     (let i0 = unat (index_at ix 0); i1 = unat (index_at ix 1)
      in case ty of
           TYPE_TEMP \<Rightarrow>
             Inr (if i0 < length (registers s) then Some (LocTemp i0) else None, Temporary)
         | TYPE_INDEXABLE_TEMP \<Rightarrow>
             Inr (if n = 2 then
                    if i0 < length (indexableTemps s) then
                      if i1 < length (indexableTemps s ! i0) then Some (LocIndexable i0 i1)
                      else None
                    else None
                  else None, IndexedTemporary)
         | TYPE_OUTPUT \<Rightarrow>
             Inr (if i0 < length (outputs s) then Some (LocOutput i0) else None, Output)
         | TYPE_INPUT \<Rightarrow> Inr (None, Undefined)
         | TYPE_CONSTANT_BUFFER \<Rightarrow> Inr (None, Undefined)
         | TYPE_OUTPUT_DEPTH \<Rightarrow> semantic_output s DepthOutput
         | TYPE_OUTPUT_DEPTH_LESS_EQUAL \<Rightarrow> semantic_output s DepthOutputLessEqual
         | TYPE_OUTPUT_DEPTH_GREATER_EQUAL \<Rightarrow> semantic_output s DepthOutputGreaterEqual
         | TYPE_OUTPUT_STENCIL_REF \<Rightarrow> semantic_output s StencilReference
         | TYPE_OUTPUT_COVERAGE_MASK \<Rightarrow> semantic_output s MSAACoverage
         | _ \<Rightarrow> Inl Unmodelled)"

text \<open>
  One destination component: \<^verbatim>\<open>AssignValue\<close> on component \<open>c\<close> from source
  component \<open>si\<close>, then \<^verbatim>\<open>if(changed && range.type != RegisterType::Undefined)\<close> the
  range, with its component set, is pushed on \<^verbatim>\<open>modified\<close>.
\<close>

definition SetDst_write ::
  "RegLoc \<Rightarrow> RegisterType \<Rightarrow> u16 \<Rightarrow> ShaderVariable \<Rightarrow> bool \<Rightarrow> State \<Rightarrow> u8 \<times> nat \<Rightarrow> error + State" where
  "SetDst_write loc rt ri right fd s w =
     (case AssignValue (flags s) (read_loc s loc) (unat (fst w)) right (snd w) fd of
        Inl e \<Rightarrow> Inl e
      | Inr (changed, v', fl') \<Rightarrow>
          (let s1 = (write_loc s loc v')\<lparr>flags := fl'\<rparr>
           in Inr (if changed \<and> rt \<noteq> Undefined
                   then s1\<lparr>modified := modified s1 @ [\<lparr>rtype = rt, rindex = ri, component = fst w\<rparr>]\<rparr>
                   else s1)))"

fun SetDst_writes ::
  "RegLoc \<Rightarrow> RegisterType \<Rightarrow> u16 \<Rightarrow> ShaderVariable \<Rightarrow> bool \<Rightarrow> State \<Rightarrow> (u8 \<times> nat) list \<Rightarrow> error + State" where
  "SetDst_writes loc rt ri right fd s [] = Inr s"
| "SetDst_writes loc rt ri right fd s (w # ws) =
     (case SetDst_write loc rt ri right fd s w of
        Inl e \<Rightarrow> Inl e
      | Inr s1 \<Rightarrow> SetDst_writes loc rt ri right fd s1 ws)"

text \<open>
  The writes of the three branches of \<^verbatim>\<open>SetDst\<close>, as pairs (destination component,
  source component), in the order the code performs them: a scalar mask writes
  \<^verbatim>\<open>comps[0]\<close> from component 0; a vector mask writes every used \<^verbatim>\<open>comps[i]\<close> from
  the same component; and with no component used (\<^verbatim>\<open>compsWritten == 0\<close>) component 0
  is written from component 0.
\<close>

definition dst_writes :: "Comps \<Rightarrow> (u8 \<times> nat) list" where
  "dst_writes cs =
     (if is_scalar cs then [(c0 cs, 0)]
      else (let used = filter (\<lambda>c. c \<noteq> 0xff) [c0 cs, c1 cs, c2 cs, c3 cs]
            in if used = [] then [(0, 0)] else map (\<lambda>c. (c, unat c)) used))"

definition SetDst ::
  "VarType \<Rightarrow> State \<Rightarrow> ASMOperand \<Rightarrow> ASMOperation \<Rightarrow> ShaderVariable \<Rightarrow> error + State" where
  "SetDst dt s dstoper op v =
     (if 4 < length (indices dstoper) then Inl UndefinedBehaviour
      else case GetIndices dt s (indices dstoper) op of
             Inl e \<Rightarrow> Inl e
           | Inr ix \<Rightarrow>
               (if optype dstoper = TYPE_NULL then Inr s
                else case SetDst_target s (optype dstoper) (length (indices dstoper)) ix of
                       Inl e \<Rightarrow> Inl e
                     | Inr (None, rt) \<Rightarrow> Inr s
                     | Inr (Some loc, rt) \<Rightarrow>
                         (case (if saturate op then sat v (OperationType (operation op))
                                else Inr v) of
                            Inl e \<Rightarrow> Inl e
                          | Inr right \<Rightarrow>
                              SetDst_writes loc rt (ucast (index_at ix 0)) right
                                (OperationFlushing (operation op)) s
                                (dst_writes (comps dstoper)))))"

section \<open>The single step: \<^verbatim>\<open>State::GetNext\<close>\<close>

definition bind_err :: "error + 'a \<Rightarrow> ('a \<Rightarrow> error + 'b) \<Rightarrow> error + 'b" where
  "bind_err m f = (case m of Inl e \<Rightarrow> Inl e | Inr x \<Rightarrow> f x)"

definition at_or_ub :: "'a list \<Rightarrow> nat \<Rightarrow> error + 'a" where
  \<comment> \<open>an unchecked \<^verbatim>\<open>operator[]\<close> of a vector\<close>
  "at_or_ub xs k = (if k < length xs then Inr (xs ! k) else Inl UndefinedBehaviour)"

fun GetSrcs :: "VarType \<Rightarrow> State \<Rightarrow> ASMOperand list \<Rightarrow> ASMOperation \<Rightarrow> error + ShaderVariable list" where
  \<comment> \<open>\<^verbatim>\<open>srcOpers.push_back(GetSrc(op.operands[i], op))\<close> over the operands given\<close>
  "GetSrcs dt s [] op = Inr []"
| "GetSrcs dt s (x # xs) op =
     (case GetSrc dt s x op of
        Inl e \<Rightarrow> Inl e
      | Inr v \<Rightarrow> (case GetSrcs dt s xs op of Inl e \<Rightarrow> Inl e | Inr vs \<Rightarrow> Inr (v # vs)))"

definition SetDst_unless_null ::
  "VarType \<Rightarrow> State \<Rightarrow> ASMOperand \<Rightarrow> ASMOperation \<Rightarrow> ShaderVariable \<Rightarrow> error + State" where
  \<comment> \<open>\<^verbatim>\<open>if(oper.type != TYPE_NULL) s.SetDst(oper, op, v)\<close>\<close>
  "SetDst_unless_null dt s oper op v =
     (if optype oper = TYPE_NULL then Inr s else SetDst dt s oper op v)"

subsection \<open>\<^verbatim>\<open>udiv\<close>, \<^verbatim>\<open>bfrev\<close>, \<^verbatim>\<open>uaddc\<close>, \<^verbatim>\<open>usubb\<close>\<close>

definition udiv_quot :: "u32 \<Rightarrow> u32 \<Rightarrow> u32" where
  "udiv_quot n d = (if d \<noteq> 0 then n div d else 0xffffffff)"

definition udiv_rem :: "u32 \<Rightarrow> u32 \<Rightarrow> u32" where
  "udiv_rem n d = (if d \<noteq> 0 then n - (n div d) * d else 0xffffffff)"

definition exec_udiv ::
  "VarType \<Rightarrow> State \<Rightarrow> ASMOperation \<Rightarrow> ShaderVariable list \<Rightarrow> error + State" where
  "exec_udiv dt s op srcOpers =
     bind_err (at_or_ub srcOpers 1) (\<lambda>a.
     bind_err (at_or_ub srcOpers 2) (\<lambda>b.
     bind_err (at_or_ub (operands op) 0) (\<lambda>d0.
     bind_err (at_or_ub (operands op) 1) (\<lambda>d1.
       (let quot = ShaderVariable_uint []
                     (udiv_quot (ux (val a)) (ux (val b))) (udiv_quot (uy (val a)) (uy (val b)))
                     (udiv_quot (uz (val a)) (uz (val b))) (udiv_quot (uw (val a)) (uw (val b)));
            rem = ShaderVariable_uint []
                     (udiv_rem (ux (val a)) (ux (val b))) (udiv_rem (uy (val a)) (uy (val b)))
                     (udiv_rem (uz (val a)) (uz (val b))) (udiv_rem (uw (val a)) (uw (val b)))
        in bind_err (SetDst_unless_null dt s d0 op quot) (\<lambda>s1.
             SetDst_unless_null dt s1 d1 op rem))))))"

definition BitwiseReverseLSB16 :: "u32 \<Rightarrow> u32" where
  "BitwiseReverseLSB16 x =
     (let x1 = (drop_bit 1 x AND 0x55555555) OR push_bit 1 (x AND 0x55555555);
          x2 = (drop_bit 2 x1 AND 0x33333333) OR push_bit 2 (x1 AND 0x33333333);
          x3 = (drop_bit 4 x2 AND 0x0F0F0F0F) OR push_bit 4 (x2 AND 0x0F0F0F0F);
          x4 = (drop_bit 8 x3 AND 0x00FF00FF) OR push_bit 8 (x3 AND 0x00FF00FF)
      in push_bit 16 x4)"

definition exec_bfrev ::
  "VarType \<Rightarrow> State \<Rightarrow> ASMOperation \<Rightarrow> ShaderVariable list \<Rightarrow> error + State" where
  "exec_bfrev dt s op srcOpers =
     bind_err (at_or_ub srcOpers 0) (\<lambda>a.
     bind_err (at_or_ub (operands op) 0) (\<lambda>d0.
       SetDst dt s d0 op
         (ShaderVariable_uint [] (BitwiseReverseLSB16 (ux (val a))) (BitwiseReverseLSB16 (uy (val a)))
                                 (BitwiseReverseLSB16 (uz (val a))) (BitwiseReverseLSB16 (uw (val a))))))"

definition uaddc_src :: "u32 \<Rightarrow> u32 \<Rightarrow> u64" where
  \<comment> \<open>\<^verbatim>\<open>src[i] = (uint64_t)srcOpers[1].value.uv[i]\<close> and then, in the second loop,
      \<^verbatim>\<open>src[i] = (uint64_t)srcOpers[2].value.uv[i]\<close>\<close>
  "uaddc_src a b = (let src = (ucast a :: u64); src = (ucast b :: u64) in src)"

definition uaddc_dst :: "u64 \<Rightarrow> u32" where
  \<comment> \<open>\<^verbatim>\<open>dst[i] = (uint32_t)(src[i] & 0xffffffff)\<close>\<close>
  "uaddc_dst src = ucast (src AND 0xffffffff)"

definition uaddc_carry :: "u64 \<Rightarrow> u32" where
  \<comment> \<open>\<^verbatim>\<open>src[i] > 0xffffffff ? 1U : 0U\<close>\<close>
  "uaddc_carry src = (if 0xffffffff < src then 1 else 0)"

definition exec_uaddc ::
  "VarType \<Rightarrow> State \<Rightarrow> ASMOperation \<Rightarrow> ShaderVariable list \<Rightarrow> error + State" where
  "exec_uaddc dt s op srcOpers =
     bind_err (at_or_ub srcOpers 1) (\<lambda>a.
     bind_err (at_or_ub srcOpers 2) (\<lambda>b.
     bind_err (at_or_ub (operands op) 0) (\<lambda>d0.
       (let s0 = uaddc_src (ux (val a)) (ux (val b)); s1 = uaddc_src (uy (val a)) (uy (val b));
            s2 = uaddc_src (uz (val a)) (uz (val b)); s3 = uaddc_src (uw (val a)) (uw (val b))
        in bind_err (SetDst dt s d0 op
                       (ShaderVariable_uint [] (uaddc_dst s0) (uaddc_dst s1) (uaddc_dst s2) (uaddc_dst s3)))
             (\<lambda>st1. bind_err (at_or_ub (operands op) 1) (\<lambda>d1.
                SetDst_unless_null dt st1 d1 op
                  (ShaderVariable_uint [] (uaddc_carry s0) (uaddc_carry s1)
                                          (uaddc_carry s2) (uaddc_carry s3))))))))"

definition usubb_result :: "u32 \<Rightarrow> u32 \<Rightarrow> u64" where
  \<comment> \<open>\<^verbatim>\<open>result[i] = (0x100000000 | (uint64_t)src0) - (uint64_t)src1\<close>\<close>
  "usubb_result a b = (0x100000000 OR (ucast a :: u64)) - (ucast b :: u64)"

definition usubb_borrow :: "u64 \<Rightarrow> u32" where
  \<comment> \<open>\<^verbatim>\<open>result[i] <= 0xffffffff ? 1U : 0U\<close>\<close>
  "usubb_borrow r = (if r \<le> 0xffffffff then 1 else 0)"

definition exec_usubb ::
  "VarType \<Rightarrow> State \<Rightarrow> ASMOperation \<Rightarrow> ShaderVariable list \<Rightarrow> error + State" where
  \<comment> \<open>every \<^verbatim>\<open>dst[i]\<close> is \<^verbatim>\<open>(uint32_t)(result[0] & 0xffffffff)\<close>\<close>
  "exec_usubb dt s op srcOpers =
     bind_err (at_or_ub srcOpers 1) (\<lambda>a.
     bind_err (at_or_ub srcOpers 2) (\<lambda>b.
     bind_err (at_or_ub (operands op) 0) (\<lambda>d0.
       (let r0 = usubb_result (ux (val a)) (ux (val b)); r1 = usubb_result (uy (val a)) (uy (val b));
            r2 = usubb_result (uz (val a)) (uz (val b)); r3 = usubb_result (uw (val a)) (uw (val b));
            d = (ucast (r0 AND 0xffffffff) :: u32)
        in bind_err (SetDst dt s d0 op (ShaderVariable_uint [] d d d d))
             (\<lambda>st1. bind_err (at_or_ub (operands op) 1) (\<lambda>d1.
                SetDst_unless_null dt st1 d1 op
                  (ShaderVariable_uint [] (usubb_borrow r0) (usubb_borrow r1)
                                          (usubb_borrow r2) (usubb_borrow r3))))))))"

subsection \<open>\<^verbatim>\<open>imm_atomic_alloc\<close> and \<^verbatim>\<open>imm_atomic_consume\<close>\<close>

text \<open>
  \<^verbatim>\<open>global.uavs\<close> is an array of the missing header; the model gives it the length
  of the list, and an index past it is an out-of-bounds access.
\<close>

definition exec_alloc ::
  "VarType \<Rightarrow> GlobalState \<Rightarrow> State \<Rightarrow> ASMOperation \<Rightarrow> ShaderVariable list
     \<Rightarrow> error + (State \<times> GlobalState)" where
  \<comment> \<open>\<^verbatim>\<open>count = global.uavs[srcOpers[0].value.u.x].hiddenCounter++\<close>\<close>
  "exec_alloc dt global s op srcOpers =
     bind_err (at_or_ub srcOpers 0) (\<lambda>a.
     bind_err (at_or_ub (uavs global) (unat (ux (val a)))) (\<lambda>uav.
       (let count = hiddenCounter uav;
            global1 = global\<lparr>uavs := (uavs global)[unat (ux (val a)) :=
                                         uav\<lparr>hiddenCounter := hiddenCounter uav + 1\<rparr>]\<rparr>
        in bind_err (at_or_ub (operands op) 0) (\<lambda>d0.
           bind_err (SetDst dt s d0 op (ShaderVariable_uint [] count count count count))
             (\<lambda>s1. Inr (s1, global1))))))"

definition exec_consume ::
  "VarType \<Rightarrow> GlobalState \<Rightarrow> State \<Rightarrow> ASMOperation \<Rightarrow> ShaderVariable list
     \<Rightarrow> error + (State \<times> GlobalState)" where
  \<comment> \<open>\<^verbatim>\<open>count = --global.uavs[srcOpers[0].value.u.x].hiddenCounter\<close>\<close>
  "exec_consume dt global s op srcOpers =
     bind_err (at_or_ub srcOpers 0) (\<lambda>a.
     bind_err (at_or_ub (uavs global) (unat (ux (val a)))) (\<lambda>uav.
       (let count = hiddenCounter uav - 1;
            global1 = global\<lparr>uavs := (uavs global)[unat (ux (val a)) :=
                                         uav\<lparr>hiddenCounter := count\<rparr>]\<rparr>
        in bind_err (at_or_ub (operands op) 0) (\<lambda>d0.
           bind_err (SetDst dt s d0 op (ShaderVariable_uint [] count count count count))
             (\<lambda>s1. Inr (s1, global1))))))"

subsection \<open>Flow control: \<^verbatim>\<open>switch\<close>, \<^verbatim>\<open>ret\<close>, \<^verbatim>\<open>discard\<close>\<close>

text \<open>
  The forward scan of \<^verbatim>\<open>OPCODE_SWITCH\<close> over the instructions from \<open>search\<close> on,
  with the signed \<open>depth\<close> counter and \<open>jump\<close> (\<^verbatim>\<open>jumpLocation\<close>). The branches are
  in the order of the source, so the test for \<^verbatim>\<open>OPCODE_ENDSWITCH\<close> inside the
  \<^verbatim>\<open>depth == 0\<close> branch comes after the \<^verbatim>\<open>else if\<close> that already took that opcode.
  Instruction counts are taken to fit the 32-bit counters.
\<close>

fun switch_scan ::
  "VarType \<Rightarrow> State \<Rightarrow> u32 \<Rightarrow> ASMOperation list \<Rightarrow> nat \<Rightarrow> int \<Rightarrow> nat \<Rightarrow> error + nat" where
  "switch_scan dt s sv [] search depth jump = Inr jump"
| "switch_scan dt s sv (nextOp # rest) search depth jump =
     (if operation nextOp = OPCODE_SWITCH
      then switch_scan dt s sv rest (Suc search) (depth + 1) jump
      else if operation nextOp = OPCODE_ENDSWITCH
      then switch_scan dt s sv rest (Suc search) (depth - 1) jump
      else if depth = 0 then
        (let jump1 = (if operation nextOp = OPCODE_DEFAULT then search else jump)
         in if operation nextOp = OPCODE_ENDSWITCH then Inr jump1
            else if operation nextOp = OPCODE_CASE then
              (case at_or_ub (operands nextOp) 0 of
                 Inl e \<Rightarrow> Inl e
               | Inr oper \<Rightarrow>
                   (case GetSrc dt s oper nextOp of
                      Inl e \<Rightarrow> Inl e
                    | Inr cv \<Rightarrow>
                        if ux (val cv) = sv then Inr search
                        else switch_scan dt s sv rest (Suc search) depth jump1))
            else switch_scan dt s sv rest (Suc search) depth jump1)
      else switch_scan dt s sv rest (Suc search) depth jump)"

fun skip_labels :: "ASMOperation list \<Rightarrow> nat \<Rightarrow> nat" where
  \<comment> \<open>the second loop: step over \<^verbatim>\<open>case\<close> and \<^verbatim>\<open>default\<close> labels\<close>
  "skip_labels [] j = j"
| "skip_labels (nextOp # rest) j =
     (if operation nextOp = OPCODE_CASE then skip_labels rest (Suc j)
      else if operation nextOp = OPCODE_DEFAULT then skip_labels rest (Suc j)
      else j)"

definition exec_switch :: "VarType \<Rightarrow> State \<Rightarrow> State \<Rightarrow> ASMOperation \<Rightarrow> error + State" where
  \<comment> \<open>\<open>this\<close> is the state \<^verbatim>\<open>GetSrc\<close> reads, \<open>s\<close> the copy being built\<close>
  "exec_switch dt this s op =
     bind_err (at_or_ub (operands op) 0) (\<lambda>oper.
     bind_err (GetSrc dt this oper op) (\<lambda>v.
       (let ins = instructions (dxbc s); search = nat (nextInstruction s)
        in bind_err (switch_scan dt this (ux (val v)) (drop search ins) search 0 0) (\<lambda>jump.
             Inr (if jump = 0 then s
                  else s\<lparr>nextInstruction := int (skip_labels (drop jump ins) jump)\<rparr>)))))"

definition exec_ret :: "VarType \<Rightarrow> State \<Rightarrow> State \<Rightarrow> ASMOperation \<Rightarrow> error + State" where
  "exec_ret dt this s op =
     (if operation op = OPCODE_RET then Inr (s\<lparr>done := True\<rparr>)
      else bind_err (at_or_ub (operands op) 0) (\<lambda>oper.
           bind_err (GetSrc dt this oper op) (\<lambda>v.
             Inr (if (if ux (val v) = 0 then \<not> nonzero op else nonzero op)
                  then s\<lparr>done := True\<rparr> else s))))"

definition exec_discard :: "VarType \<Rightarrow> State \<Rightarrow> State \<Rightarrow> ASMOperation \<Rightarrow> error + State" where
  "exec_discard dt this s op =
     bind_err (at_or_ub (operands op) 0) (\<lambda>oper.
     bind_err (GetSrc dt this oper op) (\<lambda>v.
       Inr (if (if ux (val v) = 0 then nonzero op else \<not> nonzero op)
            then s else s\<lparr>done := True\<rparr>)))"

subsection \<open>\<^verbatim>\<open>GetNext\<close>\<close>

text \<open>
  The opcode dispatch. \<^verbatim>\<open>add\<close> reaches the float branch of the helper \<open>add\<close>; the
  loop, \<^verbatim>\<open>if\<close> and \<^verbatim>\<open>break\<close> families are not part of this embedding.
\<close>

definition exec_op ::
  "VarType \<Rightarrow> GlobalState \<Rightarrow> State \<Rightarrow> State \<Rightarrow> ASMOperation \<Rightarrow> ShaderVariable list
     \<Rightarrow> error + (State \<times> GlobalState)" where
  "exec_op dt global this s op srcOpers =
     (let keep = (\<lambda>r. bind_err r (\<lambda>s1. Inr (s1, global)));
          optype = OperationType (operation op);
          add_case =
            keep (bind_err (at_or_ub srcOpers 0) (\<lambda>a.
                  bind_err (at_or_ub srcOpers 1) (\<lambda>b.
                  bind_err (add a b optype) (\<lambda>r.
                  bind_err (at_or_ub (operands op) 0) (\<lambda>d0. SetDst dt s d0 op r)))));
          mov_case =
            keep (bind_err (at_or_ub srcOpers 0) (\<lambda>a.
                  bind_err (at_or_ub (operands op) 0) (\<lambda>d0. SetDst dt s d0 op a)))
      in case operation op of
           OPCODE_IADD \<Rightarrow> add_case
         | OPCODE_ADD \<Rightarrow> add_case
         | OPCODE_UDIV \<Rightarrow> keep (exec_udiv dt s op srcOpers)
         | OPCODE_BFREV \<Rightarrow> keep (exec_bfrev dt s op srcOpers)
         | OPCODE_UADDC \<Rightarrow> keep (exec_uaddc dt s op srcOpers)
         | OPCODE_USUBB \<Rightarrow> keep (exec_usubb dt s op srcOpers)
         | OPCODE_NOP \<Rightarrow> Inr (s, global)
         | OPCODE_DMOV \<Rightarrow> mov_case
         | OPCODE_MOV \<Rightarrow> mov_case
         | OPCODE_IMM_ATOMIC_ALLOC \<Rightarrow> exec_alloc dt global s op srcOpers
         | OPCODE_IMM_ATOMIC_CONSUME \<Rightarrow> exec_consume dt global s op srcOpers
         | OPCODE_SWITCH \<Rightarrow> keep (exec_switch dt this s op)
         | OPCODE_CASE \<Rightarrow> Inr (s, global)
         | OPCODE_DEFAULT \<Rightarrow> Inr (s, global)
         | OPCODE_LOOP \<Rightarrow> Inr (s, global)
         | OPCODE_ENDSWITCH \<Rightarrow> Inr (s, global)
         | OPCODE_ENDIF \<Rightarrow> Inr (s, global)
         | OPCODE_DISCARD \<Rightarrow> keep (exec_discard dt this s op)
         | OPCODE_RET \<Rightarrow> keep (exec_ret dt this s op)
         | OPCODE_RETC \<Rightarrow> keep (exec_ret dt this s op)
         | _ \<Rightarrow> Inl Unmodelled)"

text \<open>
  \<^verbatim>\<open>GetNext\<close>: copy the state, clear \<^verbatim>\<open>modified\<close>, return at the end of the stream
  (the \<^verbatim>\<open>int\<close> pointer is compared as \<^verbatim>\<open>size_t\<close>, so a negative one is past the
  end), else advance the pointer, reset the flags, read the source operands (all but
  the first, \<^verbatim>\<open>op.operands.size()\<close> being the operand count by the code's assertion)
  and dispatch. The API wrapper and the quad are not modelled.
\<close>

definition GetNext :: "VarType \<Rightarrow> GlobalState \<Rightarrow> State \<Rightarrow> error + (State \<times> GlobalState)" where
  "GetNext dt global this =
     (let s0 = this\<lparr>modified := []\<rparr>
      in if nextInstruction s0 < 0 then Inr (s0, global)
         else if int (length (instructions (dxbc s0))) \<le> nextInstruction s0 then Inr (s0, global)
         else
           (let op = instructions (dxbc s0) ! nat (nextInstruction s0);
                s = s0\<lparr>nextInstruction := nextInstruction s0 + 1, flags := {}\<rparr>
            in case GetSrcs dt this (tl (operands op)) op of
                 Inl e \<Rightarrow> Inl e
               | Inr srcOpers \<Rightarrow> exec_op dt global this s op srcOpers))"

section \<open>Auxiliary notions for the statements\<close>

text \<open>
  These are not translations of source functions: they name what the theorems talk
  about. \<open>loc_ok\<close>: the location exists in the state. \<open>stored\<close>: the bits that
  \<^verbatim>\<open>AssignValue\<close> leaves in the destination for a source component \<open>x\<close>.
  \<open>aflags\<close>: the \<^verbatim>\<open>flags\<close> after one \<^verbatim>\<open>AssignValue\<close>. \<open>changed_at\<close>: the comparison \<^verbatim>\<open>AssignValue\<close> returns. \<open>write_result\<close> and
  \<open>writes_result\<close>: the state after one write, and after a list of writes.
\<close>

fun loc_ok :: "State \<Rightarrow> RegLoc \<Rightarrow> bool" where
  "loc_ok s (LocTemp i) = (i < length (registers s))"
| "loc_ok s (LocIndexable i j) =
     (if i < length (indexableTemps s) then j < length (indexableTemps s ! i) else False)"
| "loc_ok s (LocOutput i) = (i < length (outputs s))"

definition stored :: "bool \<Rightarrow> ShaderVariable \<Rightarrow> u32 \<Rightarrow> u32" where
  "stored fd right x = (if fd \<and> vtype right = Float then flush_denorm x else x)"

definition aflags :: "ShaderEvents set \<Rightarrow> ShaderVariable \<Rightarrow> nat \<Rightarrow> ShaderEvents set" where
  "aflags fl src si =
     (if vtype src = Float \<and> nan_or_inf32 (uv_get (val src) si) then insert GeneratedNanOrInf fl
      else if vtype src = Double \<and> nan_or_inf64 (dv_get src si) then insert GeneratedNanOrInf fl
      else fl)"

definition changed_at :: "ShaderValue \<Rightarrow> ShaderVariable \<Rightarrow> u8 \<times> nat \<Rightarrow> bool" where
  "changed_at old right w = (uv_get old (unat (fst w)) \<noteq> uv_get (val right) (snd w))"

definition write_val :: "bool \<Rightarrow> ShaderVariable \<Rightarrow> ShaderValue \<Rightarrow> u8 \<times> nat \<Rightarrow> ShaderValue" where
  "write_val fd right v w =
     uv_set v (unat (fst w)) (stored fd right (uv_get (val right) (snd w)))"

definition write_result ::
  "RegLoc \<Rightarrow> RegisterType \<Rightarrow> u16 \<Rightarrow> ShaderVariable \<Rightarrow> bool \<Rightarrow> State \<Rightarrow> u8 \<times> nat \<Rightarrow> State" where
  "write_result loc rt ri right fd s w =
     (write_loc s loc ((read_loc s loc)\<lparr>val := write_val fd right (val (read_loc s loc)) w\<rparr>))
       \<lparr>flags := aflags (flags s) right (snd w),
        modified := modified s @
          (if changed_at (val (read_loc s loc)) right w \<and> rt \<noteq> Undefined
           then [\<lparr>rtype = rt, rindex = ri, component = fst w\<rparr>] else [])\<rparr>"

definition writes_result ::
  "RegLoc \<Rightarrow> RegisterType \<Rightarrow> u16 \<Rightarrow> ShaderVariable \<Rightarrow> bool \<Rightarrow> State \<Rightarrow> (u8 \<times> nat) list \<Rightarrow> State" where
  "writes_result loc rt ri right fd s ws = foldl (write_result loc rt ri right fd) s ws"

text \<open>\<open>step_state\<close>: the copy \<^verbatim>\<open>s\<close> of \<^verbatim>\<open>GetNext\<close> once the pointer has advanced.\<close>

definition step_state :: "State \<Rightarrow> State" where
  "step_state s = s\<lparr>modified := [], nextInstruction := nextInstruction s + 1, flags := {}\<rparr>"

section \<open>Example values, programs and states\<close>

definition ex_nan32 :: u32 where "ex_nan32 = 0x7FC00000"
definition ex_nan32' :: u32 where "ex_nan32' = 0xFFC00001"
definition ex_nan64 :: u64 where "ex_nan64 = 0x7FF8000000000000"
definition ex_nan64' :: u64 where "ex_nan64' = 0xFFF8000000000001"

definition ex_nan_value :: ShaderVariable where
  \<comment> \<open>NaN in float slot 1 and in both doubles\<close>
  "ex_nan_value =
     \<lparr>name = ''a'', rows = 1, columns = 4, vtype = Float,
      val = ShaderValue 0 0x7FF80000 0 0x7FF80000, dv2 = 0, dv3 = 0\<rparr>"

definition ex_none :: Comps where "ex_none = Comps 0xff 0xff 0xff 0xff"
definition ex_xyzw :: Comps where "ex_xyzw = Comps 0 1 2 3"
definition ex_x :: Comps where "ex_x = Comps 0 0xff 0xff 0xff"

definition ex_null :: ASMOperand where
  "ex_null = ASMOperand TYPE_NULL [] ex_none OPERAND_MODIFIER_NONE NUMCOMPS_0 (ShaderValue 0 0 0 0)"

definition ex_temp :: "u64 \<Rightarrow> Comps \<Rightarrow> ASMOperand" where
  "ex_temp i cs = ASMOperand TYPE_TEMP [ASMIndex True False i ex_null] cs OPERAND_MODIFIER_NONE
                    NUMCOMPS_4 (ShaderValue 0 0 0 0)"

definition ex_uav :: "u64 \<Rightarrow> ASMOperand" where
  "ex_uav i = ASMOperand TYPE_UNORDERED_ACCESS_VIEW [ASMIndex True False i ex_null] ex_none
                OPERAND_MODIFIER_NONE NUMCOMPS_0 (ShaderValue 0 0 0 0)"

definition ex_imm :: "u32 \<Rightarrow> ASMOperand" where
  "ex_imm x = ASMOperand TYPE_IMMEDIATE32 [] ex_none OPERAND_MODIFIER_NONE NUMCOMPS_1
                (ShaderValue x 0 0 0)"

definition ex_ins :: "OpcodeType \<Rightarrow> ASMOperand list \<Rightarrow> ASMOperation" where
  "ex_ins opc ops = \<lparr>operation = opc, operands = ops, saturate = False, nonzero = False\<rparr>"

definition ex_reg :: "u32 \<Rightarrow> u32 \<Rightarrow> u32 \<Rightarrow> u32 \<Rightarrow> ShaderVariable" where
  "ex_reg a b c d =
     \<lparr>name = ''r'', rows = 1, columns = 4, vtype = Float, val = ShaderValue a b c d,
      dv2 = 0, dv3 = 0\<rparr>"

definition ex_state :: "ASMOperation list \<Rightarrow> ShaderVariable list \<Rightarrow> State" where
  "ex_state prog regs =
     \<lparr>registers = regs, indexableTemps = [], outputs = [], inputs = [], nextInstruction = 0,
      done = False, flags = {}, modified = [],
      dxbc = \<lparr>instructions = prog, m_OutputSig = []\<rparr>\<rparr>"

definition ex_global :: GlobalState where
  "ex_global = \<lparr>uavs = [\<lparr>hiddenCounter = 7\<rparr>]\<rparr>"




definition ex_switch_prog :: "u32 \<Rightarrow> ASMOperation list" where
  "ex_switch_prog k =
     [ex_ins OPCODE_SWITCH [ex_temp 0 ex_x], ex_ins OPCODE_CASE [ex_imm 1], ex_ins OPCODE_BREAK [],
      ex_ins OPCODE_DEFAULT [], ex_ins OPCODE_BREAK [], ex_ins OPCODE_ENDSWITCH [],
      ex_ins OPCODE_SWITCH [ex_temp 1 ex_x],
      (if k = 0 then ex_ins OPCODE_DEFAULT [] else ex_ins OPCODE_CASE [ex_imm k]),
      ex_ins OPCODE_BREAK [], ex_ins OPCODE_ENDSWITCH [], ex_ins OPCODE_RET []]"

definition ex_scenario_d_prog :: "ASMOperation list" where
  "ex_scenario_d_prog =
     [ex_ins OPCODE_SWITCH [ex_temp 0 ex_x], ex_ins OPCODE_CASE [ex_imm 1],
      ex_ins OPCODE_CASE [ex_imm 2], ex_ins OPCODE_DEFAULT [], ex_ins OPCODE_CASE [ex_imm 5],
      ex_ins OPCODE_NOP [], ex_ins OPCODE_BREAK [], ex_ins OPCODE_ENDSWITCH [], ex_ins OPCODE_RET []]"

definition ex_entry :: "u16 \<Rightarrow> u8 \<Rightarrow> RegisterRange" where
  "ex_entry r c = \<lparr>rtype = Temporary, rindex = r, component = c\<rparr>"

definition ex_two_dst_op :: "OpcodeType \<Rightarrow> ASMOperation" where
  "ex_two_dst_op opc =
     ex_ins opc [ex_temp 0 ex_xyzw, ex_temp 1 ex_xyzw, ex_temp 2 ex_xyzw, ex_temp 3 ex_xyzw]"

definition ex_two_dst_prog :: "OpcodeType \<Rightarrow> ASMOperation list" where
  "ex_two_dst_prog opc = [ex_two_dst_op opc]"

definition ex_switch_state :: "u32 \<Rightarrow> State" where
  "ex_switch_state k = ex_state (ex_switch_prog k) [ex_reg 5 0 0 0, ex_reg 9 0 0 0]"

definition ex_uaddc_state :: State where
  "ex_uaddc_state = ex_state (ex_two_dst_prog OPCODE_UADDC)
     [ex_reg 0 0 0 0, ex_reg 9 9 9 9, ex_reg 0xffffffff 1 2 3, ex_reg 1 10 20 30]"

definition ex_usubb_state :: State where
  "ex_usubb_state = ex_state (ex_two_dst_prog OPCODE_USUBB)
     [ex_reg 0 0 0 0, ex_reg 9 9 9 9, ex_reg 5 9 2 3, ex_reg 3 3 3 3]"

definition ex_udiv_state :: State where
  "ex_udiv_state = ex_state (ex_two_dst_prog OPCODE_UDIV)
     [ex_reg 0 0 0 0, ex_reg 0 0 0 0, ex_reg 7 8 9 10, ex_reg 2 0 3 0]"

definition ex_one_dst_op :: "OpcodeType \<Rightarrow> ASMOperand \<Rightarrow> ASMOperation" where
  "ex_one_dst_op opc src = ex_ins opc [ex_temp 0 ex_xyzw, src]"






definition ex_mov_op :: ASMOperation where
  "ex_mov_op = ex_ins OPCODE_MOV [ex_temp 0 ex_xyzw, ex_temp 1 ex_xyzw]"

definition ex_mov_state :: "u32 \<Rightarrow> u32 \<Rightarrow> u32 \<Rightarrow> u32 \<Rightarrow> State" where
  "ex_mov_state a b c d = ex_state [ex_mov_op] [ex_reg a b c d, ex_reg 0x3F800000 0x40000000 0x40400000 0x40800000]"

definition ex_sat_value :: ShaderVariable where
  \<comment> \<open>the floats 2.0, NaN, -inf, +inf; as doubles 2.0 and -1.0 in \<open>ex_sat_double\<close>\<close>
  "ex_sat_value =
     \<lparr>name = ''a'', rows = 1, columns = 4, vtype = Float,
      val = ShaderValue 0x40000000 0x7FC00000 0xFF800000 0x7F800000, dv2 = 0, dv3 = 0\<rparr>"

definition ex_sat_double :: ShaderVariable where
  "ex_sat_double =
     \<lparr>name = ''a'', rows = 1, columns = 4, vtype = Double,
      val = ShaderValue 0 0x40000000 0 0xBFF00000, dv2 = 0, dv3 = 0\<rparr>"

section \<open>Properties\<close>

subsection \<open>Evaluation rules and lemmas on the write path\<close>

lemmas ex_defs = ex_none_def ex_xyzw_def ex_x_def ex_null_def ex_temp_def ex_uav_def ex_imm_def
  ex_ins_def ex_reg_def ex_state_def ex_global_def

lemmas step_defs = GetNext_def exec_op_def exec_switch_def exec_ret_def exec_discard_def
  exec_udiv_def exec_bfrev_def exec_uaddc_def exec_usubb_def exec_alloc_def exec_consume_def
  bind_err_def at_or_ub_def Let_def SetDst_unless_null_def

lemmas operand_defs = GetSrc_fetch_def GetSrc_finish_def comps_ok_def comp_ok_def index_at_def
  reg_or_index_def swz_def uv_get_def uv_set_def is_scalar_def map2_cols_def map_cols_def
  ShaderVariable_default_def ShaderVariable_uint_def

lemmas dst_defs = SetDst_def SetDst_target_def SetDst_write_def AssignValue_def dst_writes_def
  nan_or_inf32_def finite32_def isnan32_def flush_denorm_def

lemma uv_get_set: "i < 4 \<Longrightarrow> j < 4 \<Longrightarrow> uv_get (uv_set v i x) j = (if i = j then x else uv_get v j)"
  by (auto simp add: uv_get_def uv_set_def)


lemma bind_err_simps:
  "bind_err (Inl e) f = Inl e" "bind_err (Inr x) f = f x"
  by (simp_all add: bind_err_def)



lemma loc_ok_upd:
  "loc_ok (s\<lparr>flags := f\<rparr>) loc = loc_ok s loc"
  "loc_ok (s\<lparr>modified := m\<rparr>) loc = loc_ok s loc"
  by (cases loc; simp)+

lemma loc_ok_write: "loc_ok s loc \<Longrightarrow> loc_ok (write_loc s loc v) loc"
  by (cases loc) (auto split: if_splits)







lemma write_result_loc_ok: "loc_ok s loc \<Longrightarrow> loc_ok (write_result loc rt ri right fd s w) loc"
  by (simp add: write_result_def loc_ok_upd loc_ok_write)




lemma writes_result_loc_ok:
  "loc_ok s loc \<Longrightarrow> loc_ok (writes_result loc rt ri right fd s ws) loc"
  unfolding writes_result_def
  by (induction ws arbitrary: s) (simp_all add: write_result_loc_ok)




lemma foldl_write_val_other:
  "j < 4 \<Longrightarrow> list_all (\<lambda>w. unat (fst w) < 4 \<and> unat (fst w) \<noteq> j) ws \<Longrightarrow>
     uv_get (foldl (write_val fd right) v ws) j = uv_get v j"
  by (induction ws arbitrary: v) (simp_all add: write_val_def uv_get_set)







lemma GetIndices_absolute:
  "GetIndices dt s [ASMIndex True False i opnd] op = Inr [ucast i]"
  by simp







subsection \<open>Facts about the examples\<close>


lemma ex_writes_x: "dst_writes ex_x = [(0, 0)]"
  by (simp add: dst_writes_def ex_x_def is_scalar_def)



lemma ex_GetSrc_temp:
  "unat (ucast i :: u32) < length (registers s) \<Longrightarrow> \<not> OperationFlushing (operation op) \<Longrightarrow>
   GetSrc dt s (ex_temp i ex_xyzw) op = Inr ((registers s ! unat (ucast i :: u32))\<lparr>columns := 4\<rparr>)"
  by (cases "val (registers s ! unat (ucast i :: u32))")
     (simp add: ex_temp_def ex_xyzw_def GetSrc_fetch_def GetSrc_finish_def index_at_def reg_or_index_def
        comps_ok_def comp_ok_def swz_def uv_get_def is_scalar_def)


subsection \<open>Lemmas on the step\<close>

lemma GetNext_eval:
  assumes "0 \<le> nextInstruction s" "nextInstruction s < int (length (instructions (dxbc s)))"
      and "instructions (dxbc s) ! nat (nextInstruction s) = op"
      and "GetSrcs dt s (tl (operands op)) op = Inr srcs"
      and "exec_op dt g s (step_state s) op srcs = r"
  shows "GetNext dt g s = r"
  using assms by (simp add: GetNext_def Let_def step_state_def)


lemma exec_op_cases:
  "operation op = OPCODE_UDIV \<Longrightarrow> exec_op dt g this s op srcs = bind_err (exec_udiv dt s op srcs) (\<lambda>s1. Inr (s1, g))"
  "operation op = OPCODE_BFREV \<Longrightarrow> exec_op dt g this s op srcs = bind_err (exec_bfrev dt s op srcs) (\<lambda>s1. Inr (s1, g))"
  "operation op = OPCODE_UADDC \<Longrightarrow> exec_op dt g this s op srcs = bind_err (exec_uaddc dt s op srcs) (\<lambda>s1. Inr (s1, g))"
  "operation op = OPCODE_USUBB \<Longrightarrow> exec_op dt g this s op srcs = bind_err (exec_usubb dt s op srcs) (\<lambda>s1. Inr (s1, g))"
  "operation op = OPCODE_IMM_ATOMIC_ALLOC \<Longrightarrow> exec_op dt g this s op srcs = exec_alloc dt g s op srcs"
  "operation op = OPCODE_IMM_ATOMIC_CONSUME \<Longrightarrow> exec_op dt g this s op srcs = exec_consume dt g s op srcs"
  by (simp_all add: exec_op_def)

lemma exec_op_mov:
  "operation op = OPCODE_MOV \<Longrightarrow> srcOpers = [a] \<Longrightarrow> operands op = [d0, s0] \<Longrightarrow>
     exec_op dt g this s op srcOpers = bind_err (SetDst dt s d0 op a) (\<lambda>s1. Inr (s1, g))"
  by (simp add: exec_op_def at_or_ub_def bind_err_simps)










lemma bind_err_weak_cong: "m = m' \<Longrightarrow> bind_err m f = bind_err m' f"
  by simp

lemma exec_eqs:
  "srcOpers = [x, a, b] \<Longrightarrow> operands op = [d0, d1, s0, s1] \<Longrightarrow>
     exec_udiv dt s op srcOpers =
       bind_err (SetDst_unless_null dt s d0 op (ShaderVariable_uint []
                     (udiv_quot (ux (val a)) (ux (val b))) (udiv_quot (uy (val a)) (uy (val b)))
                     (udiv_quot (uz (val a)) (uz (val b))) (udiv_quot (uw (val a)) (uw (val b)))))
         (\<lambda>st1. SetDst_unless_null dt st1 d1 op (ShaderVariable_uint []
                     (udiv_rem (ux (val a)) (ux (val b))) (udiv_rem (uy (val a)) (uy (val b)))
                     (udiv_rem (uz (val a)) (uz (val b))) (udiv_rem (uw (val a)) (uw (val b)))))"
  "srcOpers = [x, a, b] \<Longrightarrow> operands op = [d0, d1, s0, s1] \<Longrightarrow>
     exec_uaddc dt s op srcOpers =
       bind_err (SetDst dt s d0 op (ShaderVariable_uint []
                     (uaddc_dst (uaddc_src (ux (val a)) (ux (val b)))) (uaddc_dst (uaddc_src (uy (val a)) (uy (val b))))
                     (uaddc_dst (uaddc_src (uz (val a)) (uz (val b)))) (uaddc_dst (uaddc_src (uw (val a)) (uw (val b))))))
         (\<lambda>st1. SetDst_unless_null dt st1 d1 op (ShaderVariable_uint []
                     (uaddc_carry (uaddc_src (ux (val a)) (ux (val b)))) (uaddc_carry (uaddc_src (uy (val a)) (uy (val b))))
                     (uaddc_carry (uaddc_src (uz (val a)) (uz (val b)))) (uaddc_carry (uaddc_src (uw (val a)) (uw (val b))))))"
  "srcOpers = [x, a, b] \<Longrightarrow> operands op = [d0, d1, s0, s1] \<Longrightarrow>
     exec_usubb dt s op srcOpers =
       bind_err (SetDst dt s d0 op (ShaderVariable_uint []
                     (ucast (usubb_result (ux (val a)) (ux (val b)) AND 0xffffffff))
                     (ucast (usubb_result (ux (val a)) (ux (val b)) AND 0xffffffff))
                     (ucast (usubb_result (ux (val a)) (ux (val b)) AND 0xffffffff))
                     (ucast (usubb_result (ux (val a)) (ux (val b)) AND 0xffffffff))))
         (\<lambda>st1. SetDst_unless_null dt st1 d1 op (ShaderVariable_uint []
                     (usubb_borrow (usubb_result (ux (val a)) (ux (val b)))) (usubb_borrow (usubb_result (uy (val a)) (uy (val b))))
                     (usubb_borrow (usubb_result (uz (val a)) (uz (val b)))) (usubb_borrow (usubb_result (uw (val a)) (uw (val b))))))"
  "srcOpers = [a] \<Longrightarrow> operands op = [d0, s0] \<Longrightarrow>
     exec_bfrev dt s op srcOpers =
       SetDst dt s d0 op
         (ShaderVariable_uint [] (BitwiseReverseLSB16 (ux (val a))) (BitwiseReverseLSB16 (uy (val a)))
                                 (BitwiseReverseLSB16 (uz (val a))) (BitwiseReverseLSB16 (uw (val a))))"
  by (simp_all add: exec_udiv_def exec_uaddc_def exec_usubb_def exec_bfrev_def at_or_ub_def
      bind_err_simps Let_def)








subsection \<open>More facts about the examples\<close>

lemma ex_two_dst_op_simps:
  "operation (ex_two_dst_op opc) = opc" "\<not> saturate (ex_two_dst_op opc)"
  "operands (ex_two_dst_op opc) = [ex_temp 0 ex_xyzw, ex_temp 1 ex_xyzw, ex_temp 2 ex_xyzw, ex_temp 3 ex_xyzw]"
  by (simp_all add: ex_two_dst_op_def ex_ins_def)




lemma ex_mov_op_simps:
  "operation ex_mov_op = OPCODE_MOV" "\<not> saturate ex_mov_op"
  "operands ex_mov_op = [ex_temp 0 ex_xyzw, ex_temp 1 ex_xyzw]"
  by (simp_all add: ex_mov_op_def ex_ins_def)

lemma ex_mov_state_simps:
  "registers (ex_mov_state a b c d) = [ex_reg a b c d, ex_reg 0x3F800000 0x40000000 0x40400000 0x40800000]"
  "modified (ex_mov_state a b c d) = []"
  by (simp_all add: ex_mov_state_def ex_state_def)




lemmas setdst_eval = ex_entry_def ex_defs operand_defs dst_defs SetDst_unless_null_def step_state_def
  ex_two_dst_op_def ex_one_dst_op_def

subsection \<open>The NaN rule of \<^verbatim>\<open>dxbc_min\<close> and \<^verbatim>\<open>dxbc_max\<close>\<close>

text \<open>
  Claim C3. For floats and for doubles: when exactly one operand is NaN, \<^verbatim>\<open>dxbc_min\<close>
  and \<^verbatim>\<open>dxbc_max\<close> return the other operand; when both are NaN, the result is NaN.
\<close>

theorem dxbc_min_max_nan:
  "(isnan32 a \<and> \<not> isnan32 b \<longrightarrow> dxbc_min_float a b = b \<and> dxbc_max_float a b = b) \<and>
   (\<not> isnan32 a \<and> isnan32 b \<longrightarrow> dxbc_min_float a b = a \<and> dxbc_max_float a b = a) \<and>
   (isnan32 a \<and> isnan32 b \<longrightarrow> isnan32 (dxbc_min_float a b) \<and> isnan32 (dxbc_max_float a b)) \<and>
   (isnan64 c \<and> \<not> isnan64 d \<longrightarrow> dxbc_min_double c d = d \<and> dxbc_max_double c d = d) \<and>
   (\<not> isnan64 c \<and> isnan64 d \<longrightarrow> dxbc_min_double c d = c \<and> dxbc_max_double c d = c) \<and>
   (isnan64 c \<and> isnan64 d \<longrightarrow> isnan64 (dxbc_min_double c d) \<and> isnan64 (dxbc_max_double c d))"
  by (simp add: dxbc_min_float_def dxbc_max_float_def dxbc_min_double_def dxbc_max_double_def)

lemma nan_examples:
  "isnan32 ex_nan32" "\<not> isnan32 f32_one" "isnan32 ex_nan32'"
  "isnan64 ex_nan64" "\<not> isnan64 f64_one" "isnan64 ex_nan64'"
  by (simp_all add: isnan32_def isnan64_def ex_nan32_def ex_nan32'_def ex_nan64_def ex_nan64'_def
      f32_one_def f64_one_def)

theorem dxbc_min_max_nan_witness:
  "isnan32 ex_nan32 \<and> \<not> isnan32 f32_one \<and> isnan32 ex_nan32' \<and>
   isnan64 ex_nan64 \<and> \<not> isnan64 f64_one \<and> isnan64 ex_nan64' \<and>
   dxbc_min_float ex_nan32 f32_one = f32_one \<and> dxbc_max_float ex_nan32 f32_one = f32_one \<and>
   dxbc_min_float f32_one ex_nan32 = f32_one \<and> dxbc_max_float f32_one ex_nan32 = f32_one \<and>
   isnan32 (dxbc_min_float ex_nan32 ex_nan32') \<and> isnan32 (dxbc_max_float ex_nan32 ex_nan32') \<and>
   dxbc_min_double ex_nan64 f64_one = f64_one \<and> dxbc_max_double ex_nan64 f64_one = f64_one \<and>
   dxbc_min_double f64_one ex_nan64 = f64_one \<and> dxbc_max_double f64_one ex_nan64 = f64_one \<and>
   isnan64 (dxbc_min_double ex_nan64 ex_nan64') \<and> isnan64 (dxbc_max_double ex_nan64 ex_nan64')"
proof -
  note n = nan_examples
  have a: "dxbc_min_float ex_nan32 f32_one = f32_one \<and> dxbc_max_float ex_nan32 f32_one = f32_one \<and>
           dxbc_min_double ex_nan64 f64_one = f64_one \<and> dxbc_max_double ex_nan64 f64_one = f64_one"
    using dxbc_min_max_nan [of ex_nan32 f32_one ex_nan64 f64_one] n by simp
  have b: "dxbc_min_float f32_one ex_nan32 = f32_one \<and> dxbc_max_float f32_one ex_nan32 = f32_one \<and>
           dxbc_min_double f64_one ex_nan64 = f64_one \<and> dxbc_max_double f64_one ex_nan64 = f64_one"
    using dxbc_min_max_nan [of f32_one ex_nan32 f64_one ex_nan64] n by simp
  have c: "isnan32 (dxbc_min_float ex_nan32 ex_nan32') \<and> isnan32 (dxbc_max_float ex_nan32 ex_nan32') \<and>
           isnan64 (dxbc_min_double ex_nan64 ex_nan64') \<and> isnan64 (dxbc_max_double ex_nan64 ex_nan64')"
    using dxbc_min_max_nan [of ex_nan32 ex_nan32' ex_nan64 ex_nan64'] n by simp
  from n a b c show ?thesis by simp
qed

subsection \<open>\<^verbatim>\<open>sat\<close>\<close>

lemma sat_float_nan: "isnan32 x \<Longrightarrow> sat_float x = f32_zero"
  by (simp add: sat_float_def dxbc_min_float_def dxbc_max_float_def f32_one_def f32_zero_def
      isnan32_def flt32_def fkey32_def)

lemma sat_double_nan: "isnan64 x \<Longrightarrow> sat_double x = f64_zero"
  by (simp add: sat_double_def dxbc_min_double_def dxbc_max_double_def f64_one_def f64_zero_def
      isnan64_def flt64_def fkey64_def)

lemma sat_float_idem: "sat_float (sat_float x) = sat_float x"
  by (simp add: sat_float_def dxbc_min_float_def dxbc_max_float_def f32_one_def f32_zero_def
      isnan32_def flt32_def fge32_def fkey32_def)

lemma sat_double_idem: "sat_double (sat_double x) = sat_double x"
  by (simp add: sat_double_def dxbc_min_double_def dxbc_max_double_def f64_one_def f64_zero_def
      isnan64_def flt64_def fge64_def fkey64_def)

lemma sat_sint_idem: "sat_sint (sat_sint x) = sat_sint x"
  by (simp add: sat_sint_def)

lemma sat_uint_idem: "sat_uint (sat_uint x) = sat_uint x"
  by (simp add: sat_uint_def)

lemma sat_sint_range: "sint (sat_sint x) = max 0 (min 1 (sint x))"
  by (simp add: sat_sint_def)

lemma word_cat_split_64: "word_cat (ucast (drop_bit 32 d) :: u32) (ucast d :: u32) = (d :: u64)"
  by (rule bit_word_eqI) (auto simp add: bit_word_cat_iff bit_ucast_iff bit_drop_bit_eq)

lemma dx_dy_ShaderValue:
  "dx (ShaderValue (ucast a) (ucast (drop_bit 32 a)) c d) = a"
  "dy (ShaderValue a' b' (ucast e) (ucast (drop_bit 32 e))) = e"
  by (simp_all add: dx_def dy_def word_cat_split_64)

lemma uv_get_map_cols:
  "i < 4 \<Longrightarrow> uv_get (map_cols n f v) i = (if i < n then f (uv_get v i) else uv_get v i)"
  by (auto simp add: uv_get_def map_cols_def)

lemma map_cols_idem: "(\<And>x. f (f x) = f x) \<Longrightarrow> map_cols n f (map_cols n f v) = map_cols n f v"
  by (simp add: map_cols_def)

lemma sat_idem:
  assumes "sat v ty = Inr r"
  shows "sat r ty = Inr r"
proof (cases ty)
  case Float
  with assms show ?thesis by (auto simp add: sat_def map_cols_idem sat_float_idem)
next
  case SInt
  with assms show ?thesis by (auto simp add: sat_def map_cols_idem sat_sint_idem)
next
  case UInt
  with assms show ?thesis by (auto simp add: sat_def map_cols_idem sat_uint_idem)
next
  case Double
  with assms have r:
    "r = (DoubleSet v (sat_double (dx (val v)), sat_double (dy (val v))))\<lparr>vtype := Double\<rparr>"
    by (auto simp add: sat_def Let_def DoubleGet_def)
  have "DoubleGet r = (sat_double (dx (val v)), sat_double (dy (val v)))"
    unfolding r by (simp add: DoubleGet_def DoubleSet_def dx_dy_ShaderValue)
  then show ?thesis
    unfolding Double by (simp add: sat_def Let_def sat_double_idem r DoubleSet_def)
next
  case Unknown
  with assms show ?thesis by (simp add: sat_def)
qed

lemma sat_float_clamp:
  "sat_float x =
     (if isnan32 x then f32_zero
      else if fkey32 x \<le> fkey32 f32_zero then f32_zero
      else if fkey32 f32_one < fkey32 x then f32_one
      else x)"
  by (simp add: sat_float_def dxbc_min_float_def dxbc_max_float_def f32_one_def f32_zero_def
      isnan32_def flt32_def fge32_def fkey32_def)

lemma sat_double_clamp:
  "sat_double x =
     (if isnan64 x then f64_zero
      else if fkey64 x \<le> fkey64 f64_zero then f64_zero
      else if fkey64 f64_one < fkey64 x then f64_one
      else x)"
  by (simp add: sat_double_def dxbc_min_double_def dxbc_max_double_def f64_one_def f64_zero_def
      isnan64_def flt64_def fge64_def fkey64_def)

lemma f_consts: "fkey32 f32_zero = 0" "fkey32 f32_one = 1065353216" "\<not> isnan32 f32_zero" "\<not> isnan32 f32_one"
  "fkey64 f64_zero = 0" "fkey64 f64_one = 4607182418800017408" "\<not> isnan64 f64_zero" "\<not> isnan64 f64_one"
  by (simp_all add: fkey32_def fkey64_def f32_zero_def f32_one_def f64_zero_def f64_one_def isnan32_def isnan64_def)

text \<open>
  Claim C4. \<^verbatim>\<open>sat\<close> by type tag, on each of the \<^verbatim>\<open>columns\<close> components of the value
  (the two doubles for \<open>Double\<close>): \<open>SInt\<close> clamps to [0,1]; \<open>UInt\<close> sends every
  nonzero component to 1 and zero to 0; \<open>Float\<close> and \<open>Double\<close> give
  \<^verbatim>\<open>min(1, max(0, x))\<close> with the NaN-aware helpers, which is the clamp to [0,1] in the
  order of the floats (\<open>fkey32\<close>, \<open>fkey64\<close>): a NaN becomes +0, every \<open>x \<le> 0\<close>
  (\<open>-0\<close> and \<open>-inf\<close> among them) becomes +0, every \<open>x > 1\<close> (\<open>+inf\<close> among them)
  becomes 1, and any other \<open>x\<close> is returned as it is; and on each of the four tags
  \<^verbatim>\<open>sat\<close> returns and \<^verbatim>\<open>sat(sat(v)) = sat(v)\<close>.
\<close>

theorem sat_per_type:
  "(i < columns v \<and> i < 4 \<longrightarrow>
      (\<exists>r. sat v SInt = Inr r \<and> sint (uv_get (val r) i) = max 0 (min 1 (sint (uv_get (val v) i)))) \<and>
      (\<exists>r. sat v UInt = Inr r \<and> uv_get (val r) i = (if uv_get (val v) i = 0 then 0 else 1)) \<and>
      (\<exists>r. sat v Float = Inr r \<and>
            uv_get (val r) i = dxbc_min_float f32_one (dxbc_max_float f32_zero (uv_get (val v) i)) \<and>
            uv_get (val r) i =
              (if isnan32 (uv_get (val v) i) then f32_zero
               else if fkey32 (uv_get (val v) i) \<le> 0 then f32_zero
               else if fkey32 f32_one < fkey32 (uv_get (val v) i) then f32_one
               else uv_get (val v) i) \<and>
            (isnan32 (uv_get (val v) i) \<longrightarrow> uv_get (val r) i = f32_zero))) \<and>
   (\<exists>r. sat v Double = Inr r \<and>
         dx (val r) = dxbc_min_double f64_one (dxbc_max_double f64_zero (dx (val v))) \<and>
         dy (val r) = dxbc_min_double f64_one (dxbc_max_double f64_zero (dy (val v))) \<and>
         dx (val r) =
           (if isnan64 (dx (val v)) then f64_zero
            else if fkey64 (dx (val v)) \<le> 0 then f64_zero
            else if fkey64 f64_one < fkey64 (dx (val v)) then f64_one
            else dx (val v)) \<and>
         dy (val r) =
           (if isnan64 (dy (val v)) then f64_zero
            else if fkey64 (dy (val v)) \<le> 0 then f64_zero
            else if fkey64 f64_one < fkey64 (dy (val v)) then f64_one
            else dy (val v)) \<and>
         (isnan64 (dx (val v)) \<longrightarrow> dx (val r) = f64_zero) \<and>
         (isnan64 (dy (val v)) \<longrightarrow> dy (val r) = f64_zero)) \<and>
   (ty \<noteq> Unknown \<longrightarrow> (\<exists>r. sat v ty = Inr r \<and> sat r ty = Inr r))"
proof (intro conjI impI)
  assume i: "i < columns v \<and> i < 4"
  then show "\<exists>r. sat v SInt = Inr r \<and>
      sint (uv_get (val r) i) = max 0 (min 1 (sint (uv_get (val v) i)))"
    by (simp add: sat_def uv_get_map_cols sat_sint_range)
  from i show "\<exists>r. sat v UInt = Inr r \<and> uv_get (val r) i = (if uv_get (val v) i = 0 then 0 else 1)"
    by (simp add: sat_def uv_get_map_cols sat_uint_def)
  from i have r: "sat v Float = Inr (v\<lparr>val := map_cols (columns v) sat_float (val v), vtype := Float\<rparr>)"
    and g: "uv_get (val (v\<lparr>val := map_cols (columns v) sat_float (val v), vtype := Float\<rparr>)) i =
            sat_float (uv_get (val v) i)"
    by (simp_all add: sat_def uv_get_map_cols)
  have c: "sat_float (uv_get (val v) i) =
              (if isnan32 (uv_get (val v) i) then f32_zero
               else if fkey32 (uv_get (val v) i) \<le> 0 then f32_zero
               else if fkey32 f32_one < fkey32 (uv_get (val v) i) then f32_one
               else uv_get (val v) i)"
    by (simp only: sat_float_clamp f_consts)
  show "\<exists>r. sat v Float = Inr r \<and>
      uv_get (val r) i = dxbc_min_float f32_one (dxbc_max_float f32_zero (uv_get (val v) i)) \<and>
      uv_get (val r) i =
              (if isnan32 (uv_get (val v) i) then f32_zero
               else if fkey32 (uv_get (val v) i) \<le> 0 then f32_zero
               else if fkey32 f32_one < fkey32 (uv_get (val v) i) then f32_one
               else uv_get (val v) i) \<and>
      (isnan32 (uv_get (val v) i) \<longrightarrow> uv_get (val r) i = f32_zero)"
  proof (intro exI conjI impI)
    show "sat v Float = Inr (v\<lparr>val := map_cols (columns v) sat_float (val v), vtype := Float\<rparr>)"
      by (rule r)
    show "uv_get (val (v\<lparr>val := map_cols (columns v) sat_float (val v), vtype := Float\<rparr>)) i =
          dxbc_min_float f32_one (dxbc_max_float f32_zero (uv_get (val v) i))"
      by (simp only: g sat_float_def)
    show "uv_get (val (v\<lparr>val := map_cols (columns v) sat_float (val v), vtype := Float\<rparr>)) i =
              (if isnan32 (uv_get (val v) i) then f32_zero
               else if fkey32 (uv_get (val v) i) \<le> 0 then f32_zero
               else if fkey32 f32_one < fkey32 (uv_get (val v) i) then f32_one
               else uv_get (val v) i)"
      by (subst g) (rule c)
    assume "isnan32 (uv_get (val v) i)"
    then show "uv_get (val (v\<lparr>val := map_cols (columns v) sat_float (val v), vtype := Float\<rparr>)) i = f32_zero"
      by (subst g) (rule sat_float_nan)
  qed
next
  let ?r = "(DoubleSet v (sat_double (dx (val v)), sat_double (dy (val v))))\<lparr>vtype := Double\<rparr>"
  have r: "sat v Double = Inr ?r"
    by (simp add: sat_def Let_def DoubleGet_def)
  have gx: "dx (val ?r) = sat_double (dx (val v))" and gy: "dy (val ?r) = sat_double (dy (val v))"
    by (simp_all add: DoubleSet_def dx_dy_ShaderValue)
  have c: "sat_double x =
           (if isnan64 x then f64_zero
            else if fkey64 x \<le> 0 then f64_zero
            else if fkey64 f64_one < fkey64 x then f64_one
            else x)" for x
    by (simp only: sat_double_clamp f_consts)
  show "\<exists>r. sat v Double = Inr r \<and>
         dx (val r) = dxbc_min_double f64_one (dxbc_max_double f64_zero (dx (val v))) \<and>
         dy (val r) = dxbc_min_double f64_one (dxbc_max_double f64_zero (dy (val v))) \<and>
         dx (val r) =
           (if isnan64 (dx (val v)) then f64_zero
            else if fkey64 (dx (val v)) \<le> 0 then f64_zero
            else if fkey64 f64_one < fkey64 (dx (val v)) then f64_one
            else dx (val v)) \<and>
         dy (val r) =
           (if isnan64 (dy (val v)) then f64_zero
            else if fkey64 (dy (val v)) \<le> 0 then f64_zero
            else if fkey64 f64_one < fkey64 (dy (val v)) then f64_one
            else dy (val v)) \<and>
         (isnan64 (dx (val v)) \<longrightarrow> dx (val r) = f64_zero) \<and>
         (isnan64 (dy (val v)) \<longrightarrow> dy (val r) = f64_zero)"
  proof (intro exI conjI impI)
    show "sat v Double = Inr ?r" by (rule r)
    show "dx (val ?r) = dxbc_min_double f64_one (dxbc_max_double f64_zero (dx (val v)))"
      using gx by (simp only: sat_double_def)
    show "dy (val ?r) = dxbc_min_double f64_one (dxbc_max_double f64_zero (dy (val v)))"
      using gy by (simp only: sat_double_def)
    show "dx (val ?r) =
           (if isnan64 (dx (val v)) then f64_zero
            else if fkey64 (dx (val v)) \<le> 0 then f64_zero
            else if fkey64 f64_one < fkey64 (dx (val v)) then f64_one
            else dx (val v))"
      by (subst gx) (rule c)
    show "dy (val ?r) =
           (if isnan64 (dy (val v)) then f64_zero
            else if fkey64 (dy (val v)) \<le> 0 then f64_zero
            else if fkey64 f64_one < fkey64 (dy (val v)) then f64_one
            else dy (val v))"
      by (subst gy) (rule c)
    assume "isnan64 (dx (val v))"
    then show "dx (val ?r) = f64_zero" by (subst gx) (rule sat_double_nan)
  next
    assume "isnan64 (dy (val v))"
    then show "dy (val ?r) = f64_zero" by (subst gy) (rule sat_double_nan)
  qed
next
  assume "ty \<noteq> Unknown"
  then obtain r where "sat v ty = Inr r"
    by (cases ty) (simp_all add: sat_def Let_def)
  then show "\<exists>r. sat v ty = Inr r \<and> sat r ty = Inr r"
    using sat_idem by blast
qed

lemma ex_nan_value_facts:
  "(1::nat) < columns ex_nan_value" "isnan32 (uv_get (val ex_nan_value) 1)"
  "isnan64 (dx (val ex_nan_value))" "isnan64 (dy (val ex_nan_value))"
  by (simp_all add: ex_nan_value_def uv_get_def isnan32_def isnan64_def dx_def dy_def word_cat_eq)

lemma ex_sat_value_facts:
  "columns ex_sat_value = 4"
  "uv_get (val ex_sat_value) 0 = 0x40000000" "uv_get (val ex_sat_value) 2 = 0xFF800000"
  "uv_get (val ex_sat_value) 3 = 0x7F800000"
  "dx (val ex_sat_double) = 0x4000000000000000" "dy (val ex_sat_double) = 0xBFF0000000000000"
  by (simp_all add: ex_sat_value_def ex_sat_double_def uv_get_def dx_def dy_def word_cat_eq)

lemma ex_sat_keys:
  "\<not> isnan32 0x40000000" "fkey32 0x40000000 = 1073741824"
  "\<not> isnan32 0xFF800000" "fkey32 0xFF800000 = - 2139095040"
  "\<not> isnan32 0x7F800000" "fkey32 0x7F800000 = 2139095040"
  "\<not> isnan64 0x4000000000000000" "fkey64 0x4000000000000000 = 4611686018427387904"
  "\<not> isnan64 0xBFF0000000000000" "fkey64 0xBFF0000000000000 = - 4607182418800017408"
  by (simp_all add: isnan32_def isnan64_def fkey32_def fkey64_def)

theorem sat_per_type_witness:
  "(1::nat) < columns ex_nan_value \<and> (1::nat) < 4 \<and> isnan32 (uv_get (val ex_nan_value) 1) \<and>
   isnan64 (dx (val ex_nan_value)) \<and> isnan64 (dy (val ex_nan_value)) \<and> Float \<noteq> Unknown \<and>
   (\<exists>r. sat ex_nan_value SInt = Inr r \<and>
         sint (uv_get (val r) 1) = max 0 (min 1 (sint (uv_get (val ex_nan_value) 1)))) \<and>
   (\<exists>r. sat ex_nan_value UInt = Inr r \<and>
         uv_get (val r) 1 = (if uv_get (val ex_nan_value) 1 = 0 then 0 else 1)) \<and>
   (\<exists>r. sat ex_nan_value Float = Inr r \<and> uv_get (val r) 1 = f32_zero) \<and>
   (\<exists>r. sat ex_nan_value Double = Inr r \<and> dx (val r) = f64_zero \<and> dy (val r) = f64_zero) \<and>
   (\<exists>r. sat ex_nan_value Float = Inr r \<and> sat r Float = Inr r) \<and>
   (\<exists>r. sat ex_sat_value Float = Inr r \<and> uv_get (val r) 0 = f32_one) \<and>
   (\<exists>r. sat ex_sat_value Float = Inr r \<and> uv_get (val r) 2 = f32_zero) \<and>
   (\<exists>r. sat ex_sat_value Float = Inr r \<and> uv_get (val r) 3 = f32_one) \<and>
   (\<exists>r. sat ex_sat_double Double = Inr r \<and> dx (val r) = f64_one \<and> dy (val r) = f64_zero)"
proof -
  note f = ex_nan_value_facts
  have four: "(1::nat) < 4" and tag: "Float \<noteq> Unknown" by simp_all
  have "(\<exists>r. sat ex_nan_value SInt = Inr r \<and>
           sint (uv_get (val r) 1) = max 0 (min 1 (sint (uv_get (val ex_nan_value) 1)))) \<and>
        (\<exists>r. sat ex_nan_value UInt = Inr r \<and>
           uv_get (val r) 1 = (if uv_get (val ex_nan_value) 1 = 0 then 0 else 1)) \<and>
        (\<exists>r. sat ex_nan_value Float = Inr r \<and> uv_get (val r) 1 = f32_zero) \<and>
        (\<exists>r. sat ex_nan_value Double = Inr r \<and> dx (val r) = f64_zero \<and> dy (val r) = f64_zero) \<and>
        (\<exists>r. sat ex_nan_value Float = Inr r \<and> sat r Float = Inr r)"
    using sat_per_type [of 1 ex_nan_value Float] f four by auto
  moreover have "\<exists>r. sat ex_sat_value Float = Inr r \<and> uv_get (val r) 0 = f32_one"
    using sat_per_type [of 0 ex_sat_value Float]
    by (auto simp add: ex_sat_value_facts ex_sat_keys f_consts)
  moreover have "\<exists>r. sat ex_sat_value Float = Inr r \<and> uv_get (val r) 2 = f32_zero"
    using sat_per_type [of 2 ex_sat_value Float]
    by (auto simp add: ex_sat_value_facts ex_sat_keys f_consts)
  moreover have "\<exists>r. sat ex_sat_value Float = Inr r \<and> uv_get (val r) 3 = f32_one"
    using sat_per_type [of 3 ex_sat_value Float]
    by (auto simp add: ex_sat_value_facts ex_sat_keys f_consts)
  moreover have "\<exists>r. sat ex_sat_double Double = Inr r \<and> dx (val r) = f64_one \<and> dy (val r) = f64_zero"
    using sat_per_type [of 0 ex_sat_double Double]
    by (auto simp add: ex_sat_value_facts ex_sat_keys f_consts)
  ultimately show ?thesis using f four tag by simp
qed

subsection \<open>\<^verbatim>\<open>udiv\<close>\<close>





subsection \<open>The end of the stream and the \<^verbatim>\<open>done\<close> flag\<close>





subsection \<open>\<^verbatim>\<open>switch\<close>\<close>

text \<open>
  Claim C2 at a failing input: two \<^verbatim>\<open>switch\<close> statements one after the other. The
  first, on 5, has \<^verbatim>\<open>case 1\<close> at 1 and \<^verbatim>\<open>default\<close> at 3, so the step should end at
  4. The scan does not stop at the \<^verbatim>\<open>endswitch\<close> at 5 (the counter drops to -1 and the
  next \<^verbatim>\<open>switch\<close> brings it back to 0), takes the label at 7 of the second statement,
  a \<^verbatim>\<open>default\<close> in one program and a \<^verbatim>\<open>case 5\<close> in the other, and ends at 8.
\<close>

theorem switch_takes_label_of_later_switch:
  "operation (ex_switch_prog 0 ! 0) = OPCODE_SWITCH \<and>
   operation (ex_switch_prog 0 ! 3) = OPCODE_DEFAULT \<and>
   operation (ex_switch_prog 0 ! 5) = OPCODE_ENDSWITCH \<and>
   operation (ex_switch_prog 0 ! 6) = OPCODE_SWITCH \<and>
   operation (ex_switch_prog 0 ! 7) = OPCODE_DEFAULT \<and>
   operation (ex_switch_prog 5 ! 7) = OPCODE_CASE \<and>
   GetNext Float ex_global (ex_switch_state 0) =
     Inr ((ex_switch_state 0)\<lparr>nextInstruction := 8\<rparr>, ex_global) \<and>
   GetNext Float ex_global (ex_switch_state 5) =
     Inr ((ex_switch_state 5)\<lparr>nextInstruction := 8\<rparr>, ex_global)"
  by (simp add: ex_switch_state_def ex_switch_prog_def ex_defs step_defs operand_defs)


text \<open>Within one \<^verbatim>\<open>switch\<close> the scan does what the claim says (scenario D of the spec).\<close>

lemma scenario_D_switch:
  "GetNext Float ex_global (ex_state ex_scenario_d_prog [ex_reg 5 0 0 0]) =
     Inr ((ex_state ex_scenario_d_prog [ex_reg 5 0 0 0])\<lparr>nextInstruction := 5\<rparr>, ex_global) \<and>
   GetNext Float ex_global (ex_state ex_scenario_d_prog [ex_reg 7 0 0 0]) =
     Inr ((ex_state ex_scenario_d_prog [ex_reg 7 0 0 0])\<lparr>nextInstruction := 5\<rparr>, ex_global)"
  by (simp add: ex_scenario_d_prog_def ex_defs step_defs operand_defs)


subsection \<open>\<^verbatim>\<open>abs\<close> and \<^verbatim>\<open>neg\<close> on \<open>UInt\<close>\<close>

text \<open>
  Claim C10. With the \<open>UInt\<close> tag \<^verbatim>\<open>abs\<close> and \<^verbatim>\<open>neg\<close> return their argument
  with the tag set to \<open>UInt\<close>: the components are untouched, and a \<open>UInt\<close>-tagged
  value comes back as it is. So \<^verbatim>\<open>sub\<close> is \<^verbatim>\<open>add\<close> on \<open>UInt\<close>, and on an
  instruction classified as \<open>UInt\<close> an operand modifier does not alter the value
  \<^verbatim>\<open>GetSrc\<close> returns.
\<close>

theorem abs_neg_uint_identity:
  "abs_var v UInt = Inr (v\<lparr>vtype := UInt\<rparr>) \<and> neg v UInt = Inr (v\<lparr>vtype := UInt\<rparr>) \<and>
   (vtype v = UInt \<longrightarrow> abs_var v UInt = Inr v \<and> neg v UInt = Inr v) \<and>
   sub a b UInt = add a b UInt \<and>
   (OperationType (operation op) = UInt \<longrightarrow>
      map_sum id val (GetSrc dt s (ASMOperand ty idxs cs md nc vals) op) =
      map_sum id val (GetSrc dt s (ASMOperand ty idxs cs OPERAND_MODIFIER_NONE nc vals) op))"
proof (intro conjI impI)
  show "abs_var v UInt = Inr (v\<lparr>vtype := UInt\<rparr>)" by (simp add: abs_var_def)
  show "neg v UInt = Inr (v\<lparr>vtype := UInt\<rparr>)" by (simp add: neg_def)
  show "sub a b UInt = add a b UInt" by (simp add: sub_def neg_def add_def)
next
  assume "vtype v = UInt"
  then have "v\<lparr>vtype := UInt\<rparr> = v" by (cases v) simp
  then show "abs_var v UInt = Inr v" "neg v UInt = Inr v" by (simp_all add: abs_var_def neg_def)
next
  assume u: "OperationType (operation op) = UInt"
  have fin: "map_sum id val (GetSrc_finish sf cs md (operation op)) =
             map_sum id val (GetSrc_finish sf cs OPERAND_MODIFIER_NONE (operation op))" for sf
    by (cases md) (simp_all add: GetSrc_finish_def Let_def u abs_var_def neg_def)
  show "map_sum id val (GetSrc dt s (ASMOperand ty idxs cs md nc vals) op) =
        map_sum id val (GetSrc dt s (ASMOperand ty idxs cs OPERAND_MODIFIER_NONE nc vals) op)"
    by (simp add: fin split: sum.splits)
qed


theorem abs_neg_uint_identity_witness:
  "vtype (ShaderVariable_uint [] 1 2 3 4) = UInt \<and>
   abs_var (ShaderVariable_uint [] 1 2 3 4) UInt = Inr (ShaderVariable_uint [] 1 2 3 4) \<and>
   neg (ShaderVariable_uint [] 1 2 3 4) UInt = Inr (ShaderVariable_uint [] 1 2 3 4) \<and>
   OperationType (operation (ex_two_dst_op OPCODE_UDIV)) = UInt \<and>
   map_sum id val (GetSrc Float ex_udiv_state
       (ASMOperand TYPE_TEMP [ASMIndex True False 2 ex_null] ex_xyzw OPERAND_MODIFIER_ABSNEG
          NUMCOMPS_4 (ShaderValue 0 0 0 0)) (ex_two_dst_op OPCODE_UDIV)) =
   map_sum id val (GetSrc Float ex_udiv_state
       (ASMOperand TYPE_TEMP [ASMIndex True False 2 ex_null] ex_xyzw OPERAND_MODIFIER_NONE
          NUMCOMPS_4 (ShaderValue 0 0 0 0)) (ex_two_dst_op OPCODE_UDIV))"
proof -
  have t: "vtype (ShaderVariable_uint [] 1 2 3 4) = UInt" by (simp add: ShaderVariable_uint_def)
  have u: "OperationType (operation (ex_two_dst_op OPCODE_UDIV)) = UInt"
    by (simp add: ex_two_dst_op_def ex_ins_def)
  from abs_neg_uint_identity
         [of "ShaderVariable_uint [] 1 2 3 4" a b "ex_two_dst_op OPCODE_UDIV" Float ex_udiv_state
             TYPE_TEMP "[ASMIndex True False 2 ex_null]" ex_xyzw OPERAND_MODIFIER_ABSNEG NUMCOMPS_4
             "ShaderValue 0 0 0 0"] t u
  show ?thesis by simp
qed


subsection \<open>\<^verbatim>\<open>uaddc\<close> and \<^verbatim>\<open>usubb\<close>\<close>

text \<open>
  Claim C8 at two failing inputs. \<^verbatim>\<open>uaddc r0, r1, r2, r3\<close> with
  \<^verbatim>\<open>r2 = (0xffffffff, 1, 2, 3)\<close> and \<^verbatim>\<open>r3 = (1, 10, 20, 30)\<close> should leave the sums
  \<^verbatim>\<open>(0, 11, 22, 33)\<close> in \<^verbatim>\<open>r0\<close> and the carries \<^verbatim>\<open>(1, 0, 0, 0)\<close> in \<^verbatim>\<open>r1\<close>; the
  code leaves \<^verbatim>\<open>r3\<close> in \<^verbatim>\<open>r0\<close> and no carry. \<^verbatim>\<open>usubb r0, r1, r2, r3\<close> with
  \<^verbatim>\<open>r2 = (5, 9, 2, 3)\<close> and \<^verbatim>\<open>r3 = (3, 3, 3, 3)\<close> should leave the differences
  \<^verbatim>\<open>(2, 6, 0xffffffff, 0)\<close>; the code leaves the first difference in every
  component (the borrows \<^verbatim>\<open>(0, 0, 1, 0)\<close> are right).
\<close>

theorem uaddc_usubb_evaluated:
  "GetNext Float ex_global ex_uaddc_state =
     Inr (ex_uaddc_state\<lparr>registers := [ex_reg 1 10 20 30, ex_reg 0 0 0 0, ex_reg 0xffffffff 1 2 3,
                                         ex_reg 1 10 20 30],
            nextInstruction := 1,
            modified := [ex_entry 0 0, ex_entry 0 1, ex_entry 0 2, ex_entry 0 3,
                         ex_entry 1 0, ex_entry 1 1, ex_entry 1 2, ex_entry 1 3]\<rparr>, ex_global) \<and>
   GetNext Float ex_global ex_usubb_state =
     Inr (ex_usubb_state\<lparr>registers := [ex_reg 2 2 2 2, ex_reg 0 0 1 0, ex_reg 5 9 2 3, ex_reg 3 3 3 3],
            nextInstruction := 1,
            modified := [ex_entry 0 0, ex_entry 0 1, ex_entry 0 2, ex_entry 0 3,
                         ex_entry 1 0, ex_entry 1 1, ex_entry 1 2, ex_entry 1 3]\<rparr>, ex_global)"
proof
  let ?s = ex_uaddc_state and ?op = "ex_two_dst_op OPCODE_UADDC"
  have regs: "registers ?s = [ex_reg 0 0 0 0, ex_reg 9 9 9 9, ex_reg 0xffffffff 1 2 3, ex_reg 1 10 20 30]"
    and ipv: "nextInstruction ?s = 0" and prog: "instructions (dxbc ?s) = [?op]"
    by (simp_all add: ex_uaddc_state_def ex_state_def ex_two_dst_prog_def)
  have srcs: "GetSrcs Float ?s (tl (operands ?op)) ?op = Inr [ex_reg 9 9 9 9, ex_reg 0xffffffff 1 2 3, ex_reg 1 10 20 30]"
    by (simp add: ex_two_dst_op_simps ex_GetSrc_temp regs ex_reg_def)
  show "GetNext Float ex_global ?s =
     Inr (?s\<lparr>registers := [ex_reg 1 10 20 30, ex_reg 0 0 0 0, ex_reg 0xffffffff 1 2 3, ex_reg 1 10 20 30],
            nextInstruction := 1,
            modified := [ex_entry 0 0, ex_entry 0 1, ex_entry 0 2, ex_entry 0 3,
                         ex_entry 1 0, ex_entry 1 1, ex_entry 1 2, ex_entry 1 3]\<rparr>, ex_global)"
  proof (rule GetNext_eval [OF _ _ _ srcs])
    show "exec_op Float ex_global ?s (step_state ?s) ?op
            [ex_reg 9 9 9 9, ex_reg 0xffffffff 1 2 3, ex_reg 1 10 20 30] =
          Inr (?s\<lparr>registers := [ex_reg 1 10 20 30, ex_reg 0 0 0 0, ex_reg 0xffffffff 1 2 3, ex_reg 1 10 20 30],
            nextInstruction := 1,
            modified := [ex_entry 0 0, ex_entry 0 1, ex_entry 0 2, ex_entry 0 3,
                         ex_entry 1 0, ex_entry 1 1, ex_entry 1 2, ex_entry 1 3]\<rparr>, ex_global)"
      apply (simp only: exec_op_cases(3) [OF ex_two_dst_op_simps(1)]
                        exec_eqs(2) [OF refl ex_two_dst_op_simps(3)])
      apply (simp add: bind_err_simps setdst_eval ex_uaddc_state_def uaddc_src_def uaddc_dst_def uaddc_carry_def
                  cong: bind_err_weak_cong)
      done
  qed (simp_all add: ipv prog)
next
  let ?s = ex_usubb_state and ?op = "ex_two_dst_op OPCODE_USUBB"
  have regs: "registers ?s = [ex_reg 0 0 0 0, ex_reg 9 9 9 9, ex_reg 5 9 2 3, ex_reg 3 3 3 3]"
    and ipv: "nextInstruction ?s = 0" and prog: "instructions (dxbc ?s) = [?op]"
    by (simp_all add: ex_usubb_state_def ex_state_def ex_two_dst_prog_def)
  have srcs: "GetSrcs Float ?s (tl (operands ?op)) ?op = Inr [ex_reg 9 9 9 9, ex_reg 5 9 2 3, ex_reg 3 3 3 3]"
    by (simp add: ex_two_dst_op_simps ex_GetSrc_temp regs ex_reg_def)
  show "GetNext Float ex_global ?s =
     Inr (?s\<lparr>registers := [ex_reg 2 2 2 2, ex_reg 0 0 1 0, ex_reg 5 9 2 3, ex_reg 3 3 3 3],
            nextInstruction := 1,
            modified := [ex_entry 0 0, ex_entry 0 1, ex_entry 0 2, ex_entry 0 3,
                         ex_entry 1 0, ex_entry 1 1, ex_entry 1 2, ex_entry 1 3]\<rparr>, ex_global)"
  proof (rule GetNext_eval [OF _ _ _ srcs])
    show "exec_op Float ex_global ?s (step_state ?s) ?op
            [ex_reg 9 9 9 9, ex_reg 5 9 2 3, ex_reg 3 3 3 3] =
          Inr (?s\<lparr>registers := [ex_reg 2 2 2 2, ex_reg 0 0 1 0, ex_reg 5 9 2 3, ex_reg 3 3 3 3],
            nextInstruction := 1,
            modified := [ex_entry 0 0, ex_entry 0 1, ex_entry 0 2, ex_entry 0 3,
                         ex_entry 1 0, ex_entry 1 1, ex_entry 1 2, ex_entry 1 3]\<rparr>, ex_global)"
      apply (simp only: exec_op_cases(4) [OF ex_two_dst_op_simps(1)]
                        exec_eqs(3) [OF refl ex_two_dst_op_simps(3)])
      apply (simp add: bind_err_simps setdst_eval ex_usubb_state_def usubb_result_def usubb_borrow_def
                  cong: bind_err_weak_cong)
      done
  qed (simp_all add: ipv prog)
qed


subsection \<open>\<^verbatim>\<open>bfrev\<close>\<close>







subsection \<open>The hidden counter: \<^verbatim>\<open>imm_atomic_alloc\<close> and \<^verbatim>\<open>imm_atomic_consume\<close>\<close>






subsection \<open>Change tracking in \<^verbatim>\<open>SetDst\<close>\<close>




text \<open>
  Scenario A of the specification: \<^verbatim>\<open>mov r0, r1\<close> with \<^verbatim>\<open>r1 = (1.0, 2.0, 3.0, 4.0)\<close>
  gives \<^verbatim>\<open>r0 = r1\<close> and four entries, or one entry when \<^verbatim>\<open>r0\<close> already agreed on
  three components.
\<close>

lemma scenario_A_mov:
  "GetNext Float ex_global (ex_mov_state 0 0 0 0) =
     Inr ((ex_mov_state 0 0 0 0)\<lparr>registers := [ex_reg 0x3F800000 0x40000000 0x40400000 0x40800000,
                                                 ex_reg 0x3F800000 0x40000000 0x40400000 0x40800000],
            nextInstruction := 1,
            modified := [ex_entry 0 0, ex_entry 0 1, ex_entry 0 2, ex_entry 0 3]\<rparr>, ex_global) \<and>
   GetNext Float ex_global (ex_mov_state 0x3F800000 0x40000000 0x40400000 0) =
     Inr ((ex_mov_state 0x3F800000 0x40000000 0x40400000 0)
            \<lparr>registers := [ex_reg 0x3F800000 0x40000000 0x40400000 0x40800000,
                           ex_reg 0x3F800000 0x40000000 0x40400000 0x40800000],
             nextInstruction := 1, modified := [ex_entry 0 3]\<rparr>, ex_global)"
proof -
  let ?v = "ex_reg 0x3F800000 0x40000000 0x40400000 0x40800000"
  have step: "GetNext Float ex_global (ex_mov_state a b c d) =
      bind_err (SetDst Float (step_state (ex_mov_state a b c d)) (ex_temp 0 ex_xyzw) ex_mov_op ?v)
        (\<lambda>s1. Inr (s1, ex_global))" for a b c d
  proof (rule GetNext_eval [where op = ex_mov_op and srcs = "[?v]"])
    show "GetSrcs Float (ex_mov_state a b c d) (tl (operands ex_mov_op)) ex_mov_op = Inr [?v]"
      by (simp add: ex_mov_op_simps ex_GetSrc_temp ex_mov_state_simps ex_reg_def)
    show "exec_op Float ex_global (ex_mov_state a b c d) (step_state (ex_mov_state a b c d)) ex_mov_op [?v] =
       bind_err (SetDst Float (step_state (ex_mov_state a b c d)) (ex_temp 0 ex_xyzw) ex_mov_op ?v)
        (\<lambda>s1. Inr (s1, ex_global))"
      by (simp only: exec_op_mov [OF ex_mov_op_simps(1) refl ex_mov_op_simps(3)])
  qed (simp_all add: ex_mov_state_def ex_state_def)
  show ?thesis
    apply (simp only: step)
    apply (simp add: bind_err_simps setdst_eval ex_mov_state_def ex_mov_op_def
                cong: bind_err_weak_cong)
    done
qed

end
